theory Spec2Isabelle
  imports Complex_Main "HOL-Library.Multiset" "HOL-Library.AList"
begin

section \<open>Numbers\<close>

text \<open>
  A JavaScript \<^verbatim>\<open>number\<close> is an IEEE 754 binary64 value. A finite number is represented
  by the rational it denotes, and every arithmetic operation rounds its exact result to the
  nearest binary64 value, ties to even (\<open>fl\<close>). Infinities, NaN and the sign of zero are not
  represented: the functions below are applied to finite values whose results stay in range.
\<close>

type_synonym number = rat

function bitlength :: "int \<Rightarrow> int" where
  "bitlength n = (if n \<le> 0 then 0 else 1 + bitlength (n div 2))"
  by pat_completeness auto
termination
  by (relation "measure nat") auto

declare bitlength.simps [simp del]

definition ilog2 :: "rat \<Rightarrow> int" where
  \<comment> \<open>for \<open>0 < x\<close>: the exponent \<open>e\<close> with \<open>2 ^ e \<le> x < 2 ^ (e + 1)\<close>\<close>
  "ilog2 x = (if 1 \<le> x then bitlength \<lfloor>x\<rfloor> - 1
              else - bitlength (\<lceil>1 / x\<rceil> - 1))"

definition pow2 :: "int \<Rightarrow> rat" where
  "pow2 e = (if 0 \<le> e then 2 ^ nat e else 1 / 2 ^ nat (- e))"

definition round_half_even :: "rat \<Rightarrow> int" where
  "round_half_even t =
     (let f = \<lfloor>t\<rfloor>; d = t - of_int f
      in if d < 1 / 2 then f else if 1 / 2 < d then f + 1
         else if even f then f else f + 1)"

definition fl :: "rat \<Rightarrow> number" where
  \<comment> \<open>53 significant bits; below \<open>2 ^ - 1022\<close> the spacing stays \<open>2 ^ - 1074\<close>\<close>
  "fl x = (if x = 0 then 0
           else let a = \<bar>x\<bar>; e = max (ilog2 a - 52) (- 1074); s = pow2 e
                in sgn x * of_int (round_half_even (a / s)) * s)"

definition js_add :: "number \<Rightarrow> number \<Rightarrow> number" where
  "js_add a b = fl (a + b)"

definition js_sub :: "number \<Rightarrow> number \<Rightarrow> number" where
  "js_sub a b = fl (a - b)"

definition js_mul :: "number \<Rightarrow> number \<Rightarrow> number" where
  "js_mul a b = fl (a * b)"

definition js_div :: "number \<Rightarrow> number \<Rightarrow> number" where
  \<comment> \<open>every division of the source has a divisor that is checked to be non-zero\<close>
  "js_div a b = fl (a / b)"

definition Math_round :: "number \<Rightarrow> number" where
  \<comment> \<open>\<^verbatim>\<open>Math.round\<close>: the nearest integer, a tie going towards plus infinity\<close>
  "Math_round x = of_int \<lfloor>x + 1 / 2\<rfloor>"

section \<open>Strings\<close>

text \<open>
  A string is a list of 8-bit characters holding the UTF-8 encoding of the text; the literals
  of the source that are not ASCII are written as lists of code points (\<open>utf8\<close>).
  \<^verbatim>\<open>toLowerCase\<close> is modelled on the letters A to Z (the other characters of the catalog,
  Hebrew letters and digits, have no case), and the class \<^verbatim>\<open>\s\<close> on the ASCII white space.
\<close>

definition utf8_char :: "nat \<Rightarrow> string" where
  "utf8_char c =
     (if c < 0x80 then [char_of c]
      else if c < 0x800 then [char_of (0xC0 + c div 64), char_of (0x80 + c mod 64)]
      else if c < 0x10000 then
        [char_of (0xE0 + c div 4096), char_of (0x80 + (c div 64) mod 64),
         char_of (0x80 + c mod 64)]
      else
        [char_of (0xF0 + c div 262144), char_of (0x80 + (c div 4096) mod 64),
         char_of (0x80 + (c div 64) mod 64), char_of (0x80 + c mod 64)])"

definition utf8 :: "nat list \<Rightarrow> string" where
  "utf8 cs = concat (map utf8_char cs)"

definition toLowerChar :: "char \<Rightarrow> char" where
  "toLowerChar c = (let n = (of_char c :: nat) in if 65 \<le> n \<and> n \<le> 90 then char_of (n + 32) else c)"

definition toLowerCase :: "string \<Rightarrow> string" where
  "toLowerCase s = map toLowerChar s"

definition startsWith :: "string \<Rightarrow> string \<Rightarrow> bool" where
  "startsWith s p = (take (length p) s = p)"

fun includes_str :: "string \<Rightarrow> string \<Rightarrow> bool" where
  "includes_str [] t = (t = [])"
| "includes_str (c # cs) t = (startsWith (c # cs) t \<or> includes_str cs t)"

function string_of_nat :: "nat \<Rightarrow> string" where
  "string_of_nat n =
     (if n < 10 then [''0123456789'' ! n]
      else string_of_nat (n div 10) @ [''0123456789'' ! (n mod 10)])"
  by pat_completeness auto
termination
  by (relation "measure id") auto

declare string_of_nat.simps [simp del]

function replaceAll :: "string \<Rightarrow> string \<Rightarrow> string \<Rightarrow> string" where
  \<comment> \<open>\<^verbatim>\<open>s.replace(/pat/g, rep)\<close> for a pattern that is a non-empty literal\<close>
  "replaceAll pat rep [] = []"
| "replaceAll pat rep (c # cs) =
     (if pat \<noteq> [] \<and> startsWith (c # cs) pat
      then rep @ replaceAll pat rep (drop (length pat - 1) cs)
      else c # replaceAll pat rep cs)"
  by pat_completeness auto
termination
  by (relation "measure (\<lambda>(pat, rep, s). length s)") auto

subsection \<open>Regular expressions\<close>

text \<open>
  The regular expressions of the crawler are sequences of single characters, greedy stars
  over a character class and alternatives. \<open>rx_all r s\<close> lists, in the order in which a
  backtracking matcher tries them, the rests of \<open>s\<close> after each way of matching \<open>r\<close> at the
  start of \<open>s\<close>; the match that the engine reports is the first one.
\<close>

datatype re = One "char \<Rightarrow> bool" | Star "char \<Rightarrow> bool" | Alt "re list" "re list"

function rx_all :: "re list \<Rightarrow> string \<Rightarrow> string list" where
  "rx_all [] s = [s]"
| "rx_all (One p # r) [] = []"
| "rx_all (One p # r) (c # cs) = (if p c then rx_all r cs else [])"
| "rx_all (Star p # r) [] = rx_all r []"
| "rx_all (Star p # r) (c # cs) =
     (if p c then rx_all (Star p # r) cs else []) @ rx_all r (c # cs)"
| "rx_all (Alt a b # r) s = rx_all (a @ r) s @ rx_all (b @ r) s"
  by pat_completeness auto
termination
  by (relation "measures [\<lambda>(r, s). size_list size r, \<lambda>(r, s). length s]") auto

definition rx_match :: "re list \<Rightarrow> string \<Rightarrow> string option" where
  "rx_match r s = (case rx_all r s of [] \<Rightarrow> None | t # ts \<Rightarrow> Some t)"

function match_all :: "re list \<Rightarrow> string \<Rightarrow> string list" where
  \<comment> \<open>\<^verbatim>\<open>s.match(/r/g) || []\<close>: the successive matches, scanning from the left\<close>
  "match_all r [] = (case rx_match r [] of None \<Rightarrow> [] | Some t \<Rightarrow> [[]])"
| "match_all r (c # cs) =
     (case rx_match r (c # cs) of
        None \<Rightarrow> match_all r cs
      | Some t \<Rightarrow>
          if length t < length (c # cs)
          then take (length (c # cs) - length t) (c # cs) # match_all r t
          else [] # match_all r cs)"
  by pat_completeness auto
termination
  by (relation "measure (\<lambda>(r, s). length s)") auto

declare match_all.simps [simp del]

definition captures_at :: "re list \<Rightarrow> re list \<Rightarrow> re list \<Rightarrow> string \<Rightarrow> string list" where
  \<comment> \<open>the texts of the group in \<^verbatim>\<open>/pre(grp)post/\<close> matched at the start of \<open>s\<close>\<close>
  "captures_at pre grp post s =
     concat (map (\<lambda>r1. concat (map (\<lambda>r2. map (\<lambda>r3. take (length r1 - length r2) r1)
                                          (rx_all post r2))
                                  (rx_all grp r1)))
                 (rx_all pre s))"

fun rx_exec :: "re list \<Rightarrow> re list \<Rightarrow> re list \<Rightarrow> string \<Rightarrow> string option" where
  \<comment> \<open>\<^verbatim>\<open>s.match(/pre(grp)post/)\<close>: group 1 of the leftmost match, if there is one\<close>
  "rx_exec pre grp post [] =
     (case captures_at pre grp post [] of [] \<Rightarrow> None | g # gs \<Rightarrow> Some g)"
| "rx_exec pre grp post (c # cs) =
     (case captures_at pre grp post (c # cs) of
        [] \<Rightarrow> rx_exec pre grp post cs
      | g # gs \<Rightarrow> Some g)"

definition lit :: "string \<Rightarrow> re list" where
  "lit s = map (\<lambda>c. One (\<lambda>x. x = c)) s"

definition liti :: "string \<Rightarrow> re list" where
  \<comment> \<open>a literal under the flag \<^verbatim>\<open>i\<close>\<close>
  "liti s = map (\<lambda>c. One (\<lambda>x. toLowerChar x = toLowerChar c)) s"

definition dquote :: char where
  "dquote = CHR 0x22"

definition squote :: char where
  "squote = CHR 0x27"

definition isSpace :: "char \<Rightarrow> bool" where
  "isSpace c = (let n = (of_char c :: nat) in (9 \<le> n \<and> n \<le> 13) \<or> n = 32)"

definition notQuoteSpace :: "char \<Rightarrow> bool" where
  \<comment> \<open>the class \<^verbatim>\<open>[^"'\s]\<close>\<close>
  "notQuoteSpace c = (c \<noteq> dquote \<and> c \<noteq> squote \<and> \<not> isSpace c)"

definition notDquote :: "char \<Rightarrow> bool" where
  \<comment> \<open>the class \<^verbatim>\<open>[^"]\<close>\<close>
  "notDquote c = (c \<noteq> dquote)"

section \<open>Data model\<close>

text \<open>
  The interfaces of the types module and of the catalog. Field names are those of the source,
  apart from the ones that two interfaces share or that are names of the logic: the catalog
  fields carry the prefix \<open>c\<close>, \<^verbatim>\<open>Product.id\<close> is \<open>productId\<close>, \<^verbatim>\<open>Product.image\<close> is
  \<open>productImage\<close>, \<^verbatim>\<open>RawStoreItem.priceUpdateDate\<close> is \<open>itemUpdateDate\<close> and
  \<^verbatim>\<open>CrawlerResult.storeName\<close> is \<open>crawledStore\<close>. The three price fields of a product
  are those of the statistics record, which \<open>Product\<close> extends. An optional field is an
  \<open>option\<close>; a point in time is its number of milliseconds.
\<close>

record StorePrice =
  storeName :: string
  storeChain :: string
  price :: number
  priceUpdateDate :: "string option"

record RawStoreItem =
  itemCode :: string
  itemName :: string
  itemPrice :: number
  unitOfMeasure :: string
  quantity :: number
  unitOfMeasurePrice :: "number option"
  itemUpdateDate :: "string option"

record CrawlerResult =
  success :: bool
  crawledStore :: string
  items :: "RawStoreItem list"
  error :: "string option"
  fetchedAt :: int

record PriceStats =
  averagePrice :: number
  lowPrice :: number
  highPrice :: number

record Product = PriceStats +
  productId :: string
  name :: string
  nameHebrew :: string
  category :: string
  unit :: string
  barcode :: "string option"
  productImage :: string
  lastUpdated :: "int option"
  storePrices :: "StorePrice list option"

record CatalogProduct =
  cId :: string
  cName :: string
  cNameHebrew :: string
  cCategory :: string
  cUnit :: string
  cImage :: string
  barcodes :: "string list"
  searchTerms :: "string list"

record FallbackPrice =
  average :: number
  low :: number
  high :: number

datatype rating = Great | Good | Average | High | Expensive

datatype js_error = Error string | NonError

text \<open>
  What \<^verbatim>\<open>fetch\<close> resolves to: the status line and the outcome of reading the body
  (\<^verbatim>\<open>response.text()\<close>), which can fail as well.
\<close>

record http_response =
  ok :: bool
  status :: nat
  statusText :: string
  text_body :: "js_error + string"

record ShufersalFileInfo =
  url :: string
  fileName :: string
  fileType :: string

text \<open>
  The network as one crawl sees it: the outcome of fetching the listing page, for every file
  URL the outcome of \<^verbatim>\<open>parseXMLPrices(await downloadPriceFile(url))\<close> (\<open>Inl\<close> when the
  download throws; the record parser itself is not part of this development), and the clock
  reading that the crawl stores in \<^verbatim>\<open>fetchedAt\<close>.
\<close>

record crawl_env =
  listing :: "js_error + http_response"
  fileItems :: "string \<Rightarrow> js_error + RawStoreItem list"
  startedAt :: int

text \<open>The module state of the price service.\<close>

record cache_state =
  priceCache :: "(string \<times> StorePrice list) list"
  lastCrawlTime :: "int option"

record api_response =
  respSuccess :: bool
  products :: "Product list"
  source :: string
  respError :: "string option"
  timestamp :: int

section \<open>The product catalog\<close>

definition productCatalog :: "CatalogProduct list" where
  "productCatalog = [
    \<lparr>cId = ''1'', cName = ''Tomatoes'',
      cNameHebrew = utf8 [0x5E2, 0x5D2, 0x5D1, 0x5E0, 0x5D9, 0x5D5, 0x5EA],
      cCategory = utf8 [0x5D9, 0x5E8, 0x5E7, 0x5D5, 0x5EA],
      cUnit = ''1 '' @ utf8 [0x5E7, 0x22, 0x5D2],
      cImage = utf8 [0x1F345],
      barcodes = [''2000010000002'', ''2000011000001''],
      searchTerms = [utf8 [0x5E2, 0x5D2, 0x5D1, 0x5E0, 0x5D9, 0x5D5, 0x5EA], utf8 [0x5E2, 0x5D2, 0x5D1, 0x5E0, 0x5D9, 0x5D4], ''tomato'']\<rparr>,
    \<lparr>cId = ''2'', cName = ''Cucumbers'',
      cNameHebrew = utf8 [0x5DE, 0x5DC, 0x5E4, 0x5E4, 0x5D5, 0x5E0, 0x5D9, 0x5DD],
      cCategory = utf8 [0x5D9, 0x5E8, 0x5E7, 0x5D5, 0x5EA],
      cUnit = ''1 '' @ utf8 [0x5E7, 0x22, 0x5D2],
      cImage = utf8 [0x1F952],
      barcodes = [''2000020000001''],
      searchTerms = [utf8 [0x5DE, 0x5DC, 0x5E4, 0x5E4, 0x5D5, 0x5DF], utf8 [0x5DE, 0x5DC, 0x5E4, 0x5E4, 0x5D5, 0x5E0, 0x5D9, 0x5DD], ''cucumber'']\<rparr>,
    \<lparr>cId = ''3'', cName = ''Potatoes'',
      cNameHebrew = utf8 [0x5EA, 0x5E4, 0x5D5, 0x5D7, 0x5D9] @ '' '' @ utf8 [0x5D0, 0x5D3, 0x5DE, 0x5D4],
      cCategory = utf8 [0x5D9, 0x5E8, 0x5E7, 0x5D5, 0x5EA],
      cUnit = ''1 '' @ utf8 [0x5E7, 0x22, 0x5D2],
      cImage = utf8 [0x1F954],
      barcodes = [''2000030000000''],
      searchTerms = [utf8 [0x5EA, 0x5E4, 0x5D5, 0x5D7] @ '' '' @ utf8 [0x5D0, 0x5D3, 0x5DE, 0x5D4], utf8 [0x5EA, 0x5E4, 0x5D5, 0x5D7, 0x5D9] @ '' '' @ utf8 [0x5D0, 0x5D3, 0x5DE, 0x5D4], ''potato'']\<rparr>,
    \<lparr>cId = ''4'', cName = ''Onions'',
      cNameHebrew = utf8 [0x5D1, 0x5E6, 0x5DC],
      cCategory = utf8 [0x5D9, 0x5E8, 0x5E7, 0x5D5, 0x5EA],
      cUnit = ''1 '' @ utf8 [0x5E7, 0x22, 0x5D2],
      cImage = utf8 [0x1F9C5],
      barcodes = [''2000040000009''],
      searchTerms = [utf8 [0x5D1, 0x5E6, 0x5DC], ''onion'']\<rparr>,
    \<lparr>cId = ''5'', cName = ''Carrots'',
      cNameHebrew = utf8 [0x5D2, 0x5D6, 0x5E8],
      cCategory = utf8 [0x5D9, 0x5E8, 0x5E7, 0x5D5, 0x5EA],
      cUnit = ''1 '' @ utf8 [0x5E7, 0x22, 0x5D2],
      cImage = utf8 [0x1F955],
      barcodes = [''2000050000008''],
      searchTerms = [utf8 [0x5D2, 0x5D6, 0x5E8], ''carrot'']\<rparr>,
    \<lparr>cId = ''6'', cName = ''Bell Pepper'',
      cNameHebrew = utf8 [0x5E4, 0x5DC, 0x5E4, 0x5DC],
      cCategory = utf8 [0x5D9, 0x5E8, 0x5E7, 0x5D5, 0x5EA],
      cUnit = ''1 '' @ utf8 [0x5E7, 0x22, 0x5D2],
      cImage = utf8 [0x1FAD1],
      barcodes = [''2000060000007''],
      searchTerms = [utf8 [0x5E4, 0x5DC, 0x5E4, 0x5DC], ''pepper'']\<rparr>,
    \<lparr>cId = ''7'', cName = ''Lettuce'',
      cNameHebrew = utf8 [0x5D7, 0x5E1, 0x5D4],
      cCategory = utf8 [0x5D9, 0x5E8, 0x5E7, 0x5D5, 0x5EA],
      cUnit = utf8 [0x5D9, 0x5D7, 0x5D9, 0x5D3, 0x5D4],
      cImage = utf8 [0x1F96C],
      barcodes = [''2000070000006''],
      searchTerms = [utf8 [0x5D7, 0x5E1, 0x5D4], ''lettuce'']\<rparr>,
    \<lparr>cId = ''8'', cName = ''Apples'',
      cNameHebrew = utf8 [0x5EA, 0x5E4, 0x5D5, 0x5D7, 0x5D9, 0x5DD],
      cCategory = utf8 [0x5E4, 0x5D9, 0x5E8, 0x5D5, 0x5EA],
      cUnit = ''1 '' @ utf8 [0x5E7, 0x22, 0x5D2],
      cImage = utf8 [0x1F34E],
      barcodes = [''2000080000005''],
      searchTerms = [utf8 [0x5EA, 0x5E4, 0x5D5, 0x5D7], utf8 [0x5EA, 0x5E4, 0x5D5, 0x5D7, 0x5D9, 0x5DD], ''apple'']\<rparr>,
    \<lparr>cId = ''9'', cName = ''Bananas'',
      cNameHebrew = utf8 [0x5D1, 0x5E0, 0x5E0, 0x5D5, 0x5EA],
      cCategory = utf8 [0x5E4, 0x5D9, 0x5E8, 0x5D5, 0x5EA],
      cUnit = ''1 '' @ utf8 [0x5E7, 0x22, 0x5D2],
      cImage = utf8 [0x1F34C],
      barcodes = [''2000090000004''],
      searchTerms = [utf8 [0x5D1, 0x5E0, 0x5E0, 0x5D4], utf8 [0x5D1, 0x5E0, 0x5E0, 0x5D5, 0x5EA], ''banana'']\<rparr>,
    \<lparr>cId = ''10'', cName = ''Oranges'',
      cNameHebrew = utf8 [0x5EA, 0x5E4, 0x5D5, 0x5D6, 0x5D9, 0x5DD],
      cCategory = utf8 [0x5E4, 0x5D9, 0x5E8, 0x5D5, 0x5EA],
      cUnit = ''1 '' @ utf8 [0x5E7, 0x22, 0x5D2],
      cImage = utf8 [0x1F34A],
      barcodes = [''2000100000003''],
      searchTerms = [utf8 [0x5EA, 0x5E4, 0x5D5, 0x5D6], utf8 [0x5EA, 0x5E4, 0x5D5, 0x5D6, 0x5D9, 0x5DD], ''orange'']\<rparr>,
    \<lparr>cId = ''11'', cName = ''Grapes'',
      cNameHebrew = utf8 [0x5E2, 0x5E0, 0x5D1, 0x5D9, 0x5DD],
      cCategory = utf8 [0x5E4, 0x5D9, 0x5E8, 0x5D5, 0x5EA],
      cUnit = ''1 '' @ utf8 [0x5E7, 0x22, 0x5D2],
      cImage = utf8 [0x1F347],
      barcodes = [''2000110000002''],
      searchTerms = [utf8 [0x5E2, 0x5E0, 0x5D1, 0x5D9, 0x5DD], utf8 [0x5E2, 0x5E0, 0x5D1], ''grape'']\<rparr>,
    \<lparr>cId = ''12'', cName = ''Watermelon'',
      cNameHebrew = utf8 [0x5D0, 0x5D1, 0x5D8, 0x5D9, 0x5D7],
      cCategory = utf8 [0x5E4, 0x5D9, 0x5E8, 0x5D5, 0x5EA],
      cUnit = ''1 '' @ utf8 [0x5E7, 0x22, 0x5D2],
      cImage = utf8 [0x1F349],
      barcodes = [''2000120000001''],
      searchTerms = [utf8 [0x5D0, 0x5D1, 0x5D8, 0x5D9, 0x5D7], ''watermelon'']\<rparr>,
    \<lparr>cId = ''13'', cName = ''Milk 3%'',
      cNameHebrew = utf8 [0x5D7, 0x5DC, 0x5D1] @ '' 3%'',
      cCategory = utf8 [0x5D7, 0x5DC, 0x5D1] @ '' '' @ utf8 [0x5D5, 0x5D1, 0x5D9, 0x5E6, 0x5D9, 0x5DD],
      cUnit = ''1 '' @ utf8 [0x5DC, 0x5D9, 0x5D8, 0x5E8],
      cImage = utf8 [0x1F95B],
      barcodes = [''7290000066318'', ''7290000066325'', ''7290102990017''],
      searchTerms = [utf8 [0x5D7, 0x5DC, 0x5D1], ''milk'', ''3%'']\<rparr>,
    \<lparr>cId = ''14'', cName = ''Eggs'',
      cNameHebrew = utf8 [0x5D1, 0x5D9, 0x5E6, 0x5D9, 0x5DD],
      cCategory = utf8 [0x5D7, 0x5DC, 0x5D1] @ '' '' @ utf8 [0x5D5, 0x5D1, 0x5D9, 0x5E6, 0x5D9, 0x5DD],
      cUnit = ''12 '' @ utf8 [0x5D9, 0x5D7, 0x5D9, 0x5D3, 0x5D5, 0x5EA],
      cImage = utf8 [0x1F95A],
      barcodes = [''7290000129617'', ''7290000129624''],
      searchTerms = [utf8 [0x5D1, 0x5D9, 0x5E6, 0x5D9, 0x5DD], utf8 [0x5D1, 0x5D9, 0x5E6, 0x5D4], ''eggs'', utf8 [0x5EA, 0x5E8, 0x5D9, 0x5E1, 0x5E8]]\<rparr>,
    \<lparr>cId = ''15'', cName = ''Cottage Cheese'',
      cNameHebrew = utf8 [0x5E7, 0x5D5, 0x5D8, 0x5D2, 0x27],
      cCategory = utf8 [0x5D7, 0x5DC, 0x5D1] @ '' '' @ utf8 [0x5D5, 0x5D1, 0x5D9, 0x5E6, 0x5D9, 0x5DD],
      cUnit = ''250 '' @ utf8 [0x5D2, 0x5E8, 0x5DD],
      cImage = utf8 [0x1F9C0],
      barcodes = [''7290000051234'', ''7290000051241''],
      searchTerms = [utf8 [0x5E7, 0x5D5, 0x5D8, 0x5D2], ''cottage'', utf8 [0x5D2, 0x5D1, 0x5D9, 0x5E0, 0x5D4] @ '' '' @ utf8 [0x5DC, 0x5D1, 0x5E0, 0x5D4]]\<rparr>,
    \<lparr>cId = ''16'', cName = ''Yellow Cheese'',
      cNameHebrew = utf8 [0x5D2, 0x5D1, 0x5D9, 0x5E0, 0x5D4] @ '' '' @ utf8 [0x5E6, 0x5D4, 0x5D5, 0x5D1, 0x5D4],
      cCategory = utf8 [0x5D7, 0x5DC, 0x5D1] @ '' '' @ utf8 [0x5D5, 0x5D1, 0x5D9, 0x5E6, 0x5D9, 0x5DD],
      cUnit = ''200 '' @ utf8 [0x5D2, 0x5E8, 0x5DD],
      cImage = utf8 [0x1F9C0],
      barcodes = [''7290000078231'', ''7290000078248''],
      searchTerms = [utf8 [0x5D2, 0x5D1, 0x5D9, 0x5E0, 0x5D4] @ '' '' @ utf8 [0x5E6, 0x5D4, 0x5D5, 0x5D1, 0x5D4], utf8 [0x5E2, 0x5DE, 0x5E7], ''cheese'']\<rparr>,
    \<lparr>cId = ''17'', cName = ''Butter'',
      cNameHebrew = utf8 [0x5D7, 0x5DE, 0x5D0, 0x5D4],
      cCategory = utf8 [0x5D7, 0x5DC, 0x5D1] @ '' '' @ utf8 [0x5D5, 0x5D1, 0x5D9, 0x5E6, 0x5D9, 0x5DD],
      cUnit = ''200 '' @ utf8 [0x5D2, 0x5E8, 0x5DD],
      cImage = utf8 [0x1F9C8],
      barcodes = [''7290000045678''],
      searchTerms = [utf8 [0x5D7, 0x5DE, 0x5D0, 0x5D4], ''butter'']\<rparr>,
    \<lparr>cId = ''18'', cName = ''White Bread'',
      cNameHebrew = utf8 [0x5DC, 0x5D7, 0x5DD] @ '' '' @ utf8 [0x5DC, 0x5D1, 0x5DF],
      cCategory = utf8 [0x5DC, 0x5D7, 0x5DD] @ '' '' @ utf8 [0x5D5, 0x5DE, 0x5D0, 0x5E4, 0x5D9, 0x5DD],
      cUnit = utf8 [0x5D9, 0x5D7, 0x5D9, 0x5D3, 0x5D4],
      cImage = utf8 [0x1F35E],
      barcodes = [''7290000123456'', ''7290008700016''],
      searchTerms = [utf8 [0x5DC, 0x5D7, 0x5DD] @ '' '' @ utf8 [0x5DC, 0x5D1, 0x5DF], utf8 [0x5DC, 0x5D7, 0x5DD], ''bread'', utf8 [0x5D0, 0x5E0, 0x5D2, 0x27, 0x5DC]]\<rparr>,
    \<lparr>cId = ''19'', cName = ''Pita'',
      cNameHebrew = utf8 [0x5E4, 0x5D9, 0x5EA, 0x5D4],
      cCategory = utf8 [0x5DC, 0x5D7, 0x5DD] @ '' '' @ utf8 [0x5D5, 0x5DE, 0x5D0, 0x5E4, 0x5D9, 0x5DD],
      cUnit = ''6 '' @ utf8 [0x5D9, 0x5D7, 0x5D9, 0x5D3, 0x5D5, 0x5EA],
      cImage = utf8 [0x1FAD3],
      barcodes = [''7290000234567''],
      searchTerms = [utf8 [0x5E4, 0x5D9, 0x5EA, 0x5D4], utf8 [0x5E4, 0x5D9, 0x5EA, 0x5D5, 0x5EA], ''pita'']\<rparr>,
    \<lparr>cId = ''20'', cName = ''Challah'',
      cNameHebrew = utf8 [0x5D7, 0x5DC, 0x5D4],
      cCategory = utf8 [0x5DC, 0x5D7, 0x5DD] @ '' '' @ utf8 [0x5D5, 0x5DE, 0x5D0, 0x5E4, 0x5D9, 0x5DD],
      cUnit = utf8 [0x5D9, 0x5D7, 0x5D9, 0x5D3, 0x5D4],
      cImage = utf8 [0x1F35E],
      barcodes = [''7290000345678''],
      searchTerms = [utf8 [0x5D7, 0x5DC, 0x5D4], ''challah'']\<rparr>,
    \<lparr>cId = ''21'', cName = ''Chicken Breast'',
      cNameHebrew = utf8 [0x5D7, 0x5D6, 0x5D4] @ '' '' @ utf8 [0x5E2, 0x5D5, 0x5E3],
      cCategory = utf8 [0x5D1, 0x5E9, 0x5E8] @ '' '' @ utf8 [0x5D5, 0x5E2, 0x5D5, 0x5E3],
      cUnit = ''1 '' @ utf8 [0x5E7, 0x22, 0x5D2],
      cImage = utf8 [0x1F357],
      barcodes = [''2000210000005''],
      searchTerms = [utf8 [0x5D7, 0x5D6, 0x5D4] @ '' '' @ utf8 [0x5E2, 0x5D5, 0x5E3], utf8 [0x5E2, 0x5D5, 0x5E3], ''chicken breast'']\<rparr>,
    \<lparr>cId = ''22'', cName = ''Ground Beef'',
      cNameHebrew = utf8 [0x5D1, 0x5E9, 0x5E8] @ '' '' @ utf8 [0x5D8, 0x5D7, 0x5D5, 0x5DF],
      cCategory = utf8 [0x5D1, 0x5E9, 0x5E8] @ '' '' @ utf8 [0x5D5, 0x5E2, 0x5D5, 0x5E3],
      cUnit = ''1 '' @ utf8 [0x5E7, 0x22, 0x5D2],
      cImage = utf8 [0x1F969],
      barcodes = [''2000220000004''],
      searchTerms = [utf8 [0x5D1, 0x5E9, 0x5E8] @ '' '' @ utf8 [0x5D8, 0x5D7, 0x5D5, 0x5DF], ''ground beef'', utf8 [0x5D1, 0x5E7, 0x5E8] @ '' '' @ utf8 [0x5D8, 0x5D7, 0x5D5, 0x5DF]]\<rparr>,
    \<lparr>cId = ''23'', cName = ''Chicken Thighs'',
      cNameHebrew = utf8 [0x5D9, 0x5E8, 0x5DB, 0x5D9, 0x5D9, 0x5DD] @ '' '' @ utf8 [0x5E2, 0x5D5, 0x5E3],
      cCategory = utf8 [0x5D1, 0x5E9, 0x5E8] @ '' '' @ utf8 [0x5D5, 0x5E2, 0x5D5, 0x5E3],
      cUnit = ''1 '' @ utf8 [0x5E7, 0x22, 0x5D2],
      cImage = utf8 [0x1F357],
      barcodes = [''2000230000003''],
      searchTerms = [utf8 [0x5D9, 0x5E8, 0x5DB, 0x5D9, 0x5D9, 0x5DD], utf8 [0x5D9, 0x5E8, 0x5DA] @ '' '' @ utf8 [0x5E2, 0x5D5, 0x5E3], ''chicken thigh'']\<rparr>,
    \<lparr>cId = ''24'', cName = ''Salmon Fillet'',
      cNameHebrew = utf8 [0x5E4, 0x5D9, 0x5DC, 0x5D4] @ '' '' @ utf8 [0x5E1, 0x5DC, 0x5DE, 0x5D5, 0x5DF],
      cCategory = utf8 [0x5D3, 0x5D2, 0x5D9, 0x5DD],
      cUnit = ''1 '' @ utf8 [0x5E7, 0x22, 0x5D2],
      cImage = utf8 [0x1F41F],
      barcodes = [''2000240000002''],
      searchTerms = [utf8 [0x5E1, 0x5DC, 0x5DE, 0x5D5, 0x5DF], ''salmon'', utf8 [0x5E4, 0x5D9, 0x5DC, 0x5D4]]\<rparr>,
    \<lparr>cId = ''25'', cName = ''Tilapia'',
      cNameHebrew = utf8 [0x5D0, 0x5DE, 0x5E0, 0x5D5, 0x5DF],
      cCategory = utf8 [0x5D3, 0x5D2, 0x5D9, 0x5DD],
      cUnit = ''1 '' @ utf8 [0x5E7, 0x22, 0x5D2],
      cImage = utf8 [0x1F41F],
      barcodes = [''2000250000001''],
      searchTerms = [utf8 [0x5D0, 0x5DE, 0x5E0, 0x5D5, 0x5DF], ''tilapia'', utf8 [0x5D3, 0x5D2]]\<rparr>,
    \<lparr>cId = ''26'', cName = ''Tuna Can'',
      cNameHebrew = utf8 [0x5D8, 0x5D5, 0x5E0, 0x5D4],
      cCategory = utf8 [0x5E9, 0x5D9, 0x5DE, 0x5D5, 0x5E8, 0x5D9, 0x5DD],
      cUnit = ''160 '' @ utf8 [0x5D2, 0x5E8, 0x5DD],
      cImage = utf8 [0x1F96B],
      barcodes = [''7290000567890'', ''7290000567891''],
      searchTerms = [utf8 [0x5D8, 0x5D5, 0x5E0, 0x5D4], ''tuna'', utf8 [0x5E9, 0x5D9, 0x5DE, 0x5D5, 0x5E8, 0x5D9, 0x5DD]]\<rparr>,
    \<lparr>cId = ''27'', cName = ''Corn Can'',
      cNameHebrew = utf8 [0x5EA, 0x5D9, 0x5E8, 0x5E1],
      cCategory = utf8 [0x5E9, 0x5D9, 0x5DE, 0x5D5, 0x5E8, 0x5D9, 0x5DD],
      cUnit = ''400 '' @ utf8 [0x5D2, 0x5E8, 0x5DD],
      cImage = utf8 [0x1F33D],
      barcodes = [''7290000678901''],
      searchTerms = [utf8 [0x5EA, 0x5D9, 0x5E8, 0x5E1], ''corn'', utf8 [0x5E9, 0x5D9, 0x5DE, 0x5D5, 0x5E8, 0x5D9, 0x5DD]]\<rparr>,
    \<lparr>cId = ''28'', cName = ''Chickpeas'',
      cNameHebrew = utf8 [0x5D7, 0x5D5, 0x5DE, 0x5D5, 0x5E1],
      cCategory = utf8 [0x5E9, 0x5D9, 0x5DE, 0x5D5, 0x5E8, 0x5D9, 0x5DD],
      cUnit = ''400 '' @ utf8 [0x5D2, 0x5E8, 0x5DD],
      cImage = utf8 [0x1F96B],
      barcodes = [''7290000789012''],
      searchTerms = [utf8 [0x5D7, 0x5D5, 0x5DE, 0x5D5, 0x5E1], utf8 [0x5D2, 0x5E8, 0x5D2, 0x5D9, 0x5E8, 0x5D9] @ '' '' @ utf8 [0x5D7, 0x5D5, 0x5DE, 0x5D5, 0x5E1], ''chickpeas'']\<rparr>,
    \<lparr>cId = ''29'', cName = ''Coca Cola'',
      cNameHebrew = utf8 [0x5E7, 0x5D5, 0x5E7, 0x5D4] @ '' '' @ utf8 [0x5E7, 0x5D5, 0x5DC, 0x5D4],
      cCategory = utf8 [0x5DE, 0x5E9, 0x5E7, 0x5D0, 0x5D5, 0x5EA],
      cUnit = ''1.5 '' @ utf8 [0x5DC, 0x5D9, 0x5D8, 0x5E8],
      cImage = utf8 [0x1F964],
      barcodes = [''5000112611779'', ''5449000000996'', ''5449000214591''],
      searchTerms = [utf8 [0x5E7, 0x5D5, 0x5E7, 0x5D4] @ '' '' @ utf8 [0x5E7, 0x5D5, 0x5DC, 0x5D4], utf8 [0x5E7, 0x5D5, 0x5DC, 0x5D4], ''coca cola'', ''coke'']\<rparr>,
    \<lparr>cId = ''30'', cName = ''Orange Juice'',
      cNameHebrew = utf8 [0x5DE, 0x5D9, 0x5E5] @ '' '' @ utf8 [0x5EA, 0x5E4, 0x5D5, 0x5D6, 0x5D9, 0x5DD],
      cCategory = utf8 [0x5DE, 0x5E9, 0x5E7, 0x5D0, 0x5D5, 0x5EA],
      cUnit = ''1 '' @ utf8 [0x5DC, 0x5D9, 0x5D8, 0x5E8],
      cImage = utf8 [0x1F9C3],
      barcodes = [''7290000890123'', ''7290000890124''],
      searchTerms = [utf8 [0x5DE, 0x5D9, 0x5E5] @ '' '' @ utf8 [0x5EA, 0x5E4, 0x5D5, 0x5D6, 0x5D9, 0x5DD], utf8 [0x5DE, 0x5D9, 0x5E5], ''orange juice'', utf8 [0x5E4, 0x5E8, 0x5D9, 0x5D2, 0x5EA]]\<rparr>,
    \<lparr>cId = ''31'', cName = ''Mineral Water'',
      cNameHebrew = utf8 [0x5DE, 0x5D9, 0x5DD] @ '' '' @ utf8 [0x5DE, 0x5D9, 0x5E0, 0x5E8, 0x5DC, 0x5D9, 0x5DD],
      cCategory = utf8 [0x5DE, 0x5E9, 0x5E7, 0x5D0, 0x5D5, 0x5EA],
      cUnit = ''1.5 '' @ utf8 [0x5DC, 0x5D9, 0x5D8, 0x5E8],
      cImage = utf8 [0x1F4A7],
      barcodes = [''7290000901234'', ''7290000901235''],
      searchTerms = [utf8 [0x5DE, 0x5D9, 0x5DD], utf8 [0x5DE, 0x5D9, 0x5E0, 0x5E8, 0x5DC, 0x5D9, 0x5DD], utf8 [0x5E0, 0x5D1, 0x5D9, 0x5E2, 0x5D5, 0x5EA], ''water'']\<rparr>,
    \<lparr>cId = ''32'', cName = ''Bamba'',
      cNameHebrew = utf8 [0x5D1, 0x5DE, 0x5D1, 0x5D4],
      cCategory = utf8 [0x5D7, 0x5D8, 0x5D9, 0x5E4, 0x5D9, 0x5DD],
      cUnit = ''80 '' @ utf8 [0x5D2, 0x5E8, 0x5DD],
      cImage = utf8 [0x1F95C],
      barcodes = [''7290000012346'', ''7290000012353''],
      searchTerms = [utf8 [0x5D1, 0x5DE, 0x5D1, 0x5D4], ''bamba'', utf8 [0x5D0, 0x5D5, 0x5E1, 0x5DD]]\<rparr>,
    \<lparr>cId = ''33'', cName = ''Bissli'',
      cNameHebrew = utf8 [0x5D1, 0x5D9, 0x5E1, 0x5DC, 0x5D9],
      cCategory = utf8 [0x5D7, 0x5D8, 0x5D9, 0x5E4, 0x5D9, 0x5DD],
      cUnit = ''70 '' @ utf8 [0x5D2, 0x5E8, 0x5DD],
      cImage = utf8 [0x1F37F],
      barcodes = [''7290000023456'', ''7290000023463''],
      searchTerms = [utf8 [0x5D1, 0x5D9, 0x5E1, 0x5DC, 0x5D9], ''bissli'', utf8 [0x5D0, 0x5D5, 0x5E1, 0x5DD]]\<rparr>,
    \<lparr>cId = ''34'', cName = ''Dish Soap'',
      cNameHebrew = utf8 [0x5E1, 0x5D1, 0x5D5, 0x5DF] @ '' '' @ utf8 [0x5DB, 0x5DC, 0x5D9, 0x5DD],
      cCategory = utf8 [0x5E0, 0x5D9, 0x5E7, 0x5D9, 0x5D5, 0x5DF],
      cUnit = ''750 '' @ utf8 [0x5DE, 0x22, 0x5DC],
      cImage = utf8 [0x1F9F4],
      barcodes = [''7290000345678'', ''7290000345679''],
      searchTerms = [utf8 [0x5E1, 0x5D1, 0x5D5, 0x5DF] @ '' '' @ utf8 [0x5DB, 0x5DC, 0x5D9, 0x5DD], utf8 [0x5E0, 0x5D5, 0x5D6, 0x5DC] @ '' '' @ utf8 [0x5DB, 0x5DC, 0x5D9, 0x5DD], ''dish soap'', utf8 [0x5E4, 0x5D9, 0x5D9, 0x5E8, 0x5D9]]\<rparr>,
    \<lparr>cId = ''35'', cName = ''Laundry Detergent'',
      cNameHebrew = utf8 [0x5D0, 0x5D1, 0x5E7, 0x5EA] @ '' '' @ utf8 [0x5DB, 0x5D1, 0x5D9, 0x5E1, 0x5D4],
      cCategory = utf8 [0x5E0, 0x5D9, 0x5E7, 0x5D9, 0x5D5, 0x5DF],
      cUnit = ''3 '' @ utf8 [0x5E7, 0x22, 0x5D2],
      cImage = utf8 [0x1F9FA],
      barcodes = [''7290000456789'', ''7290000456790''],
      searchTerms = [utf8 [0x5D0, 0x5D1, 0x5E7, 0x5EA] @ '' '' @ utf8 [0x5DB, 0x5D1, 0x5D9, 0x5E1, 0x5D4], utf8 [0x5DB, 0x5D1, 0x5D9, 0x5E1, 0x5D4], ''laundry'', utf8 [0x5E1, 0x5E0, 0x5D5]]\<rparr>]"

section \<open>The crawler\<close>

subsection \<open>Locating the price files\<close>

definition urlRegex :: "re list" where
  \<comment> \<open>\<^verbatim>\<open>/https:\/\/pricesprodpublic\.blob\.core\.windows\.net\/[^"'\s]+\.gz[^"'\s]*/g\<close>\<close>
  "urlRegex =
     lit ''https://pricesprodpublic.blob.core.windows.net/''
     @ [One notQuoteSpace, Star notQuoteSpace] @ lit ''.gz'' @ [Star notQuoteSpace]"

definition decodeEntities :: "string \<Rightarrow> string" where
  "decodeEntities u =
     replaceAll ''&gt;'' ''>'' (replaceAll ''&lt;'' ''<'' (replaceAll ''&amp;'' ''&'' u))"

fun new_Set :: "'a list \<Rightarrow> 'a list \<Rightarrow> 'a list" where
  \<comment> \<open>the elements of a \<^verbatim>\<open>Set\<close> in insertion order, after adding those of a list\<close>
  "new_Set acc [] = acc"
| "new_Set acc (x # xs) = new_Set (if x \<in> set acc then acc else acc @ [x]) xs"

definition message :: "js_error \<Rightarrow> string" where
  \<comment> \<open>\<^verbatim>\<open>error instanceof Error ? error.message : "Unknown error"\<close>\<close>
  "message e = (case e of Error m \<Rightarrow> m | NonError \<Rightarrow> ''Unknown error'')"

definition fetchPriceFileUrls :: "js_error + http_response \<Rightarrow> js_error + string list" where
  "fetchPriceFileUrls fetched =
     (case fetched of
        Inl e \<Rightarrow> Inl e
      | Inr response \<Rightarrow>
          if \<not> ok response
          then Inl (Error (''Failed to fetch: '' @ string_of_nat (status response) @ '' ''
                           @ statusText response))
          else (case text_body response of
                  Inl e \<Rightarrow> Inl e
                | Inr html \<Rightarrow>
                    let matches = match_all urlRegex html;
                        urls = map decodeEntities matches;
                        uniqueUrls = new_Set [] urls
                    in Inr uniqueUrls))"

text \<open>
  The locator of the other version of the crawler module, \<^verbatim>\<open>fetchFileList\<close>, whose whole
  body is inside a \<^verbatim>\<open>try\<close> that returns the empty list.
\<close>

definition linkRegex :: "re list" where
  \<comment> \<open>\<^verbatim>\<open>/href="([^"]*(?:PriceFull|Prices)[^"]*\.gz)"/gi\<close>\<close>
  "linkRegex =
     liti ''href='' @ [One (\<lambda>x. x = dquote), Star notDquote,
       Alt (liti ''PriceFull'') (liti ''Prices''), Star notDquote]
     @ liti ''.gz'' @ [One (\<lambda>x. x = dquote)]"

definition lastSegment :: "string \<Rightarrow> string" where
  \<comment> \<open>\<^verbatim>\<open>url.split("/").pop() || ""\<close>\<close>
  "lastSegment u = rev (takeWhile (\<lambda>c. c \<noteq> CHR ''/'') (rev u))"

definition fileInfoOfLink :: "string \<Rightarrow> ShufersalFileInfo list" where
  \<comment> \<open>the body of the loop over \<^verbatim>\<open>linkMatches\<close>: the entry pushed for one link, if any\<close>
  "fileInfoOfLink m =
     (case rx_exec (liti ''href='' @ [One (\<lambda>x. x = dquote)]) [Star notDquote]
                   [One (\<lambda>x. x = dquote)] m of
        None \<Rightarrow> []
      | Some u0 \<Rightarrow>
          let u = (if \<not> startsWith u0 ''http''
                   then ''http://prices.shufersal.co.il''
                        @ (if startsWith u0 ''/'' then '''' else ''/'') @ u0
                   else u0)
          in [\<lparr>url = u, fileName = lastSegment u,
               fileType = (if includes_str u ''PriceFull'' then ''full'' else ''prices'')\<rparr>])"

definition fetchFileList :: "js_error + http_response \<Rightarrow> ShufersalFileInfo list" where
  "fetchFileList fetched =
     (case fetched of
        Inl e \<Rightarrow> []
      | Inr response \<Rightarrow>
          if \<not> ok response then []
          else (case text_body response of
                  Inl e \<Rightarrow> []
                | Inr html \<Rightarrow> concat (map fileInfoOfLink (match_all linkRegex html))))"

text \<open>
  The selection of the crawler test script: the same listing page, a regular expression that
  asks for \<^verbatim>\<open>PriceFull\<close> or \<^verbatim>\<open>Price\<close> in the file name, and the full files alone when
  there is one.
\<close>

definition testUrlRegex :: "re list" where
  \<comment> \<open>\<^verbatim>\<open>/https:\/\/pricesprodpublic\.blob\.core\.windows\.net\/[^"'\s]+(?:PriceFull|Price)[^"'\s]*\.gz[^"'\s]*/g\<close>\<close>
  "testUrlRegex =
     lit ''https://pricesprodpublic.blob.core.windows.net/''
     @ [One notQuoteSpace, Star notQuoteSpace, Alt (lit ''PriceFull'') (lit ''Price''),
        Star notQuoteSpace]
     @ lit ''.gz'' @ [Star notQuoteSpace]"

definition targetUrls :: "string \<Rightarrow> string list" where
  "targetUrls html =
     (let matches = match_all testUrlRegex html;
          urls = new_Set [] (map (replaceAll ''&amp;'' ''&'') matches);
          priceFullUrls = filter (\<lambda>u. includes_str u ''PriceFull'') urls;
          priceUrls = filter (\<lambda>u. \<not> includes_str u ''PriceFull'') urls
      in if priceFullUrls \<noteq> [] then priceFullUrls else priceUrls)"

subsection \<open>Removing duplicates\<close>

text \<open>
  The loop over \<^verbatim>\<open>result.items\<close> that fills the map \<^verbatim>\<open>uniqueItems\<close>, the same in both
  versions of the crawler module. The second map of the source, \<^verbatim>\<open>highPrices\<close>, is filled
  by a loop of its own and never read.
\<close>

definition dedupe_step ::
  "(string \<times> RawStoreItem) list \<Rightarrow> RawStoreItem \<Rightarrow> (string \<times> RawStoreItem) list" where
  "dedupe_step uniqueItems item =
     (case map_of uniqueItems (itemCode item) of
        None \<Rightarrow> AList.update (itemCode item) item uniqueItems
      | Some existing \<Rightarrow>
          if itemPrice item < itemPrice existing
          then AList.update (itemCode item) item uniqueItems
          else uniqueItems)"

definition dedupe :: "RawStoreItem list \<Rightarrow> (string \<times> RawStoreItem) list" where
  \<comment> \<open>the \<^verbatim>\<open>Map\<close> \<^verbatim>\<open>uniqueItems\<close> after the loop, in insertion order\<close>
  "dedupe its = foldl dedupe_step [] its"

subsection \<open>The crawl\<close>

definition processFile ::
  "(string \<Rightarrow> js_error + RawStoreItem list) \<Rightarrow> RawStoreItem list \<times> nat \<Rightarrow> string
     \<Rightarrow> RawStoreItem list \<times> nat" where
  \<comment> \<open>one round of the download loop on \<^verbatim>\<open>result.items\<close> and \<^verbatim>\<open>successCount\<close>\<close>
  "processFile get acc u =
     (case get u of
        Inl e \<Rightarrow> acc
      | Inr its \<Rightarrow> if its \<noteq> [] then (fst acc @ its, snd acc + 1) else acc)"

definition crawlShufersal :: "crawl_env \<Rightarrow> CrawlerResult" where
  "crawlShufersal env =
     (let result = \<lparr>success = False, crawledStore = ''Shufersal'', items = [],
                     error = None, fetchedAt = startedAt env\<rparr>
      in case fetchPriceFileUrls (listing env) of
           Inl e \<Rightarrow> result\<lparr>error := Some (message e)\<rparr>
         | Inr urls \<Rightarrow>
             if urls = [] then result\<lparr>error := Some ''No price files found''\<rparr>
             else
               let filesToProcess = take 5 urls;
                   collected = foldl (processFile (fileItems env)) ([], 0) filesToProcess;
                   uniqueItems = dedupe (fst collected);
                   its = map snd uniqueItems
               in result\<lparr>items := its, success := (0 < snd collected \<and> its \<noteq> [])\<rparr>)"

definition searchItems :: "RawStoreItem list \<Rightarrow> string list \<Rightarrow> RawStoreItem list" where
  "searchItems its terms =
     filter (\<lambda>item.
        let itemNameLower = toLowerCase (itemName item)
        in list_ex (\<lambda>term. itemCode item = term \<or> includes_str (itemCode item) term
                            \<or> includes_str itemNameLower (toLowerCase term)) terms) its"

section \<open>The price service\<close>

definition CACHE_DURATION_MS :: int where
  "CACHE_DURATION_MS = 1000 * 60 * 60"

definition toStorePrice :: "RawStoreItem \<Rightarrow> StorePrice" where
  \<comment> \<open>the object pushed onto \<^verbatim>\<open>prices\<close> for a matching item\<close>
  "toStorePrice m =
     \<lparr>storeName = ''Shufersal'', storeChain = ''Shufersal'', price = itemPrice m,
      priceUpdateDate = itemUpdateDate m\<rparr>"

definition findPricesForProduct :: "CatalogProduct \<Rightarrow> RawStoreItem list \<Rightarrow> StorePrice list" where
  "findPricesForProduct product allItems =
     (let prices =
            concat (map (\<lambda>barcode. map toStorePrice
                                       (filter (\<lambda>item. itemCode item = barcode) allItems))
                        (barcodes product))
      in if prices = []
         then
           let matchedItems =
                 searchItems (map (\<lambda>i. i\<lparr>unitOfMeasure := '''', quantity := 1\<rparr>) allItems)
                             (searchTerms product)
           in prices @ map toStorePrice (take 5 matchedItems)
         else prices)"

definition calculatePriceStats :: "StorePrice list \<Rightarrow> PriceStats" where
  "calculatePriceStats prices =
     (if prices = [] then \<lparr>averagePrice = 0, lowPrice = 0, highPrice = 0\<rparr>
      else
        (case filter (\<lambda>p. 0 < p) (map price prices) of
           [] \<Rightarrow> \<lparr>averagePrice = 0, lowPrice = 0, highPrice = 0\<rparr>
         | v # vs \<Rightarrow>
             let priceValues = v # vs;
                 sum = foldl js_add 0 priceValues;
                 avg = js_div sum (of_nat (length priceValues));
                 mn = fold min vs v;
                 mx = fold max vs v
             in \<lparr>averagePrice = js_div (Math_round (js_mul avg 10)) 10,
                 lowPrice = js_div (Math_round (js_mul mn 10)) 10,
                 highPrice = js_div (Math_round (js_mul mx 10)) 10\<rparr>))"

definition fallbackPrices :: "(string \<times> FallbackPrice) list" where
  "fallbackPrices = [
    (''1'', \<lparr>average = fl (89 / 10), low = fl (59 / 10), high = fl (149 / 10)\<rparr>),
    (''2'', \<lparr>average = fl (69 / 10), low = fl (39 / 10), high = fl (99 / 10)\<rparr>),
    (''3'', \<lparr>average = fl (55 / 10), low = fl (35 / 10), high = fl (89 / 10)\<rparr>),
    (''4'', \<lparr>average = fl (49 / 10), low = fl (29 / 10), high = fl (79 / 10)\<rparr>),
    (''5'', \<lparr>average = fl (59 / 10), low = fl (39 / 10), high = fl (89 / 10)\<rparr>),
    (''6'', \<lparr>average = fl (129 / 10), low = fl (79 / 10), high = fl (199 / 10)\<rparr>),
    (''7'', \<lparr>average = fl (69 / 10), low = fl (49 / 10), high = fl (99 / 10)\<rparr>),
    (''8'', \<lparr>average = fl (99 / 10), low = fl (69 / 10), high = fl (149 / 10)\<rparr>),
    (''9'', \<lparr>average = fl (79 / 10), low = fl (59 / 10), high = fl (119 / 10)\<rparr>),
    (''10'', \<lparr>average = fl (69 / 10), low = fl (49 / 10), high = fl (99 / 10)\<rparr>),
    (''11'', \<lparr>average = fl (199 / 10), low = fl (129 / 10), high = fl (299 / 10)\<rparr>),
    (''12'', \<lparr>average = fl (49 / 10), low = fl (29 / 10), high = fl (79 / 10)\<rparr>),
    (''13'', \<lparr>average = fl (69 / 10), low = fl (59 / 10), high = fl (79 / 10)\<rparr>),
    (''14'', \<lparr>average = fl (239 / 10), low = fl (199 / 10), high = fl (299 / 10)\<rparr>),
    (''15'', \<lparr>average = fl (79 / 10), low = fl (59 / 10), high = fl (99 / 10)\<rparr>),
    (''16'', \<lparr>average = fl (189 / 10), low = fl (149 / 10), high = fl (249 / 10)\<rparr>),
    (''17'', \<lparr>average = fl (129 / 10), low = fl (99 / 10), high = fl (169 / 10)\<rparr>),
    (''18'', \<lparr>average = fl (89 / 10), low = fl (69 / 10), high = fl (129 / 10)\<rparr>),
    (''19'', \<lparr>average = fl (79 / 10), low = fl (59 / 10), high = fl (109 / 10)\<rparr>),
    (''20'', \<lparr>average = fl (149 / 10), low = fl (109 / 10), high = fl (199 / 10)\<rparr>),
    (''21'', \<lparr>average = fl (399 / 10), low = fl (299 / 10), high = fl (499 / 10)\<rparr>),
    (''22'', \<lparr>average = fl (549 / 10), low = fl (449 / 10), high = fl (699 / 10)\<rparr>),
    (''23'', \<lparr>average = fl (299 / 10), low = fl (229 / 10), high = fl (399 / 10)\<rparr>),
    (''24'', \<lparr>average = fl (899 / 10), low = fl (699 / 10), high = fl (1199 / 10)\<rparr>),
    (''25'', \<lparr>average = fl (449 / 10), low = fl (349 / 10), high = fl (549 / 10)\<rparr>),
    (''26'', \<lparr>average = fl (99 / 10), low = fl (69 / 10), high = fl (149 / 10)\<rparr>),
    (''27'', \<lparr>average = fl (79 / 10), low = fl (49 / 10), high = fl (109 / 10)\<rparr>),
    (''28'', \<lparr>average = fl (69 / 10), low = fl (49 / 10), high = fl (99 / 10)\<rparr>),
    (''29'', \<lparr>average = fl (89 / 10), low = fl (59 / 10), high = fl (119 / 10)\<rparr>),
    (''30'', \<lparr>average = fl (129 / 10), low = fl (99 / 10), high = fl (169 / 10)\<rparr>),
    (''31'', \<lparr>average = fl (49 / 10), low = fl (29 / 10), high = fl (69 / 10)\<rparr>),
    (''32'', \<lparr>average = fl (69 / 10), low = fl (49 / 10), high = fl (89 / 10)\<rparr>),
    (''33'', \<lparr>average = fl (69 / 10), low = fl (49 / 10), high = fl (89 / 10)\<rparr>),
    (''34'', \<lparr>average = fl (149 / 10), low = fl (99 / 10), high = fl (199 / 10)\<rparr>),
    (''35'', \<lparr>average = fl (399 / 10), low = fl (299 / 10), high = fl (549 / 10)\<rparr>)]"

definition getFallbackPrice :: "string \<Rightarrow> FallbackPrice" where
  "getFallbackPrice pid =
     (case map_of fallbackPrices pid of
        Some p \<Rightarrow> p
      | None \<Rightarrow> \<lparr>average = 10, low = 5, high = 15\<rparr>)"

definition getFallbackProducts :: "Product list" where
  "getFallbackProducts =
     map (\<lambda>catalogProduct.
            let prices = getFallbackPrice (cId catalogProduct)
            in \<lparr>averagePrice = average prices, lowPrice = low prices, highPrice = high prices,
                productId = cId catalogProduct, name = cName catalogProduct,
                nameHebrew = cNameHebrew catalogProduct, category = cCategory catalogProduct,
                unit = cUnit catalogProduct,
                barcode = (case barcodes catalogProduct of [] \<Rightarrow> None | b # bs \<Rightarrow> Some b),
                productImage = cImage catalogProduct, lastUpdated = None,
                storePrices = None\<rparr>)
         productCatalog"

definition buildProductsFromCache :: "cache_state \<Rightarrow> Product list" where
  "buildProductsFromCache st =
     map (\<lambda>catalogProduct.
            let cached = (case map_of (priceCache st) (cId catalogProduct) of
                            None \<Rightarrow> [] | Some ps \<Rightarrow> ps);
                stats = calculatePriceStats cached;
                hasRealData = (cached \<noteq> [] \<and> 0 < averagePrice stats)
            in \<lparr>averagePrice = (if hasRealData then averagePrice stats
                                 else average (getFallbackPrice (cId catalogProduct))),
                lowPrice = (if hasRealData then lowPrice stats
                            else low (getFallbackPrice (cId catalogProduct))),
                highPrice = (if hasRealData then highPrice stats
                             else high (getFallbackPrice (cId catalogProduct))),
                productId = cId catalogProduct, name = cName catalogProduct,
                nameHebrew = cNameHebrew catalogProduct, category = cCategory catalogProduct,
                unit = cUnit catalogProduct,
                barcode = (case barcodes catalogProduct of [] \<Rightarrow> None | b # bs \<Rightarrow> Some b),
                productImage = cImage catalogProduct, lastUpdated = lastCrawlTime st,
                storePrices = (if hasRealData then Some cached else None)\<rparr>)
         productCatalog"

text \<open>
  \<^verbatim>\<open>fetchAllPrices\<close> is an asynchronous function with one \<^verbatim>\<open>await\<close>. It runs without
  interruption from its call to the point where it has called \<^verbatim>\<open>crawlShufersal()\<close>
  (\<open>fetchAllPrices_start\<close>: the products when the cache answers, \<open>None\<close> when a crawl has been
  started), and again from the moment the crawl has settled to its return
  (\<open>fetchAllPrices_resume\<close>, on the module state of that moment).
\<close>

definition cacheFresh :: "cache_state \<Rightarrow> int \<Rightarrow> bool" where
  "cacheFresh st now =
     (case lastCrawlTime st of
        None \<Rightarrow> False
      | Some t \<Rightarrow> now - t < CACHE_DURATION_MS \<and> priceCache st \<noteq> [])"

definition fetchAllPrices_start :: "cache_state \<Rightarrow> int \<Rightarrow> Product list option" where
  "fetchAllPrices_start st now =
     (if cacheFresh st now then Some (buildProductsFromCache st) else None)"

definition fetchAllPrices_resume ::
  "cache_state \<Rightarrow> CrawlerResult \<Rightarrow> int \<Rightarrow> Product list \<times> cache_state" where
  "fetchAllPrices_resume st shufersalResult now =
     (if \<not> success shufersalResult then (getFallbackProducts, st)
      else
        let cache = foldl (\<lambda>c catalogProduct.
                             AList.update (cId catalogProduct)
                               (findPricesForProduct catalogProduct (items shufersalResult)) c)
                          [] productCatalog;
            st' = \<lparr>priceCache = cache, lastCrawlTime = Some now\<rparr>
        in (buildProductsFromCache st', st'))"

definition fetchAllPrices ::
  "cache_state \<Rightarrow> crawl_env \<Rightarrow> int \<Rightarrow> int \<Rightarrow> Product list \<times> cache_state" where
  \<comment> \<open>one call that nothing interleaves with: \<open>now\<close> at the call, \<open>later\<close> after the crawl\<close>
  "fetchAllPrices st env now later =
     (case fetchAllPrices_start st now of
        Some ps \<Rightarrow> (ps, st)
      | None \<Rightarrow> fetchAllPrices_resume st (crawlShufersal env) later)"

definition getPriceRating :: "number \<Rightarrow> Product \<Rightarrow> rating" where
  "getPriceRating p product =
     (let range = js_sub (highPrice product) (lowPrice product)
      in if range = 0 then Average
         else
           let position = js_div (js_sub p (lowPrice product)) range
           in if position \<le> fl (1 / 10) then Great
              else if position \<le> fl (35 / 100) then Good
              else if position \<le> fl (65 / 100) then Average
              else if position \<le> fl (85 / 100) then High
              else Expensive)"

section \<open>The products route\<close>

definition GET ::
  "string option \<Rightarrow> cache_state \<Rightarrow> crawl_env \<Rightarrow> int \<Rightarrow> int \<Rightarrow> api_response \<times> cache_state" where
  \<comment> \<open>the first argument is \<^verbatim>\<open>searchParams.get("fallback")\<close>\<close>
  "GET fallbackParam st env now later =
     (let skipCrawl = (fallbackParam = Some ''true'');
          body = (if skipCrawl then (Inr getFallbackProducts, st)
                  else case fetchAllPrices st env now later of (ps, st') \<Rightarrow> (Inr ps, st'))
      in case body of
           (Inr ps, st') \<Rightarrow>
             (\<lparr>respSuccess = True, products = ps,
               source = (if skipCrawl then ''fallback'' else ''crawled''),
               respError = None, timestamp = later\<rparr>, st')
         | (Inl e, st') \<Rightarrow>
             (\<lparr>respSuccess = True, products = getFallbackProducts, source = ''fallback'',
               respError = Some (message e), timestamp = later\<rparr>, st'))"

section \<open>Concurrent requests\<close>

text \<open>
  The server runs one piece of code at a time. A request that calls \<^verbatim>\<open>fetchAllPrices\<close>
  at time \<open>t\<close> is the event \<open>Call i t\<close>; the crawl that request \<open>i\<close> awaits settling with
  result \<open>r\<close> at time \<open>t\<close> is the event \<open>Settle i r t\<close>. \<open>crawlsStarted\<close> counts the calls of
  \<^verbatim>\<open>crawlShufersal()\<close>.
\<close>

datatype event = Call nat int | Settle nat CrawlerResult int

record server =
  cache :: cache_state
  waiting :: "nat list"
  crawlsStarted :: nat
  answers :: "(nat \<times> Product list) list"

definition server_step :: "server \<Rightarrow> event \<Rightarrow> server" where
  "server_step s ev =
     (case ev of
        Call i t \<Rightarrow>
          (case fetchAllPrices_start (cache s) t of
             Some ps \<Rightarrow> s\<lparr>answers := answers s @ [(i, ps)]\<rparr>
           | None \<Rightarrow> s\<lparr>waiting := waiting s @ [i], crawlsStarted := crawlsStarted s + 1\<rparr>)
      | Settle i r t \<Rightarrow>
          if i \<in> set (waiting s)
          then (case fetchAllPrices_resume (cache s) r t of
                  (ps, st') \<Rightarrow>
                    s\<lparr>cache := st', waiting := removeAll i (waiting s),
                      answers := answers s @ [(i, ps)]\<rparr>)
          else s)"

definition server_run :: "server \<Rightarrow> event list \<Rightarrow> server" where
  "server_run s evs = foldl server_step s evs"

definition server_init :: server where
  "server_init =
     \<lparr>cache = \<lparr>priceCache = [], lastCrawlTime = None\<rparr>, waiting = [], crawlsStarted = 0,
      answers = []\<rparr>"

section \<open>Notions for the statements\<close>

text \<open>
  The summary in the words of the specification: the strictly positive prices are kept, no
  such price gives three zeros, and otherwise the mean, the minimum and the maximum are each
  rounded to one decimal place, half away from zero. The sum, the division by the number of
  prices, the multiplication by ten and the division by ten are the binary64 operations.
\<close>

definition round_half_away_from_zero :: "number \<Rightarrow> int" where
  "round_half_away_from_zero x = (if x < 0 then - \<lfloor>- x + 1 / 2\<rfloor> else \<lfloor>x + 1 / 2\<rfloor>)"

definition round_one_decimal :: "number \<Rightarrow> number" where
  "round_one_decimal x = js_div (of_int (round_half_away_from_zero (js_mul x 10))) 10"

definition mean :: "number list \<Rightarrow> number" where
  "mean xs = js_div (foldl js_add 0 xs) (of_nat (length xs))"

definition summarize :: "StorePrice list \<Rightarrow> PriceStats" where
  "summarize records =
     (let ps = filter (\<lambda>p. 0 < p) (map price records)
      in if ps = [] then \<lparr>averagePrice = 0, lowPrice = 0, highPrice = 0\<rparr>
         else \<lparr>averagePrice = round_one_decimal (mean ps),
               lowPrice = round_one_decimal (Min (set ps)),
               highPrice = round_one_decimal (Max (set ps))\<rparr>)"

definition lowest_for :: "RawStoreItem list \<Rightarrow> string \<Rightarrow> RawStoreItem option \<Rightarrow> bool" where
  \<comment> \<open>\<open>kept\<close> is what a deduplication of \<open>its\<close> may keep for the item code \<open>c\<close>\<close>
  "lowest_for its c kept =
     (case kept of
        None \<Rightarrow> c \<notin> itemCode ` set its
      | Some r \<Rightarrow> r \<in> set its \<and> itemCode r = c
                  \<and> (\<forall>r'\<in>set its. itemCode r' = c \<longrightarrow> itemPrice r \<le> itemPrice r'))"

definition listingFails :: "js_error + http_response \<Rightarrow> bool" where
  \<comment> \<open>the request for the listing page fails, answers with an error status, or its body
     cannot be read\<close>
  "listingFails fetched =
     (case fetched of
        Inl e \<Rightarrow> True
      | Inr response \<Rightarrow> if ok response then isl (text_body response) else True)"

definition staleCall :: "cache_state \<Rightarrow> event \<Rightarrow> bool" where
  \<comment> \<open>the event is a call of \<^verbatim>\<open>fetchAllPrices\<close> at a time when the cache does not answer\<close>
  "staleCall st ev = (case ev of Call i t \<Rightarrow> \<not> cacheFresh st t | Settle i r t \<Rightarrow> False)"

definition plainItem :: "string \<Rightarrow> string \<Rightarrow> number \<Rightarrow> RawStoreItem" where
  \<comment> \<open>the record that the parser emits for an item block with a code, a name and a price
     and no other tag\<close>
  "plainItem code nm p =
     \<lparr>itemCode = code, itemName = nm, itemPrice = p, unitOfMeasure = '''', quantity = 1,
      unitOfMeasurePrice = None, itemUpdateDate = Some ''''\<rparr>"

section \<open>Properties of the rounding\<close>

lemma pow2_pos: "0 < pow2 e"
  by (simp add: pow2_def)

lemma pow2_powi: "pow2 e = 2 powi e"
proof (cases "0 \<le> e")
  case True
  then show ?thesis by (simp add: pow2_def power_int_def)
next
  case False
  then show ?thesis by (simp add: pow2_def power_int_def inverse_eq_divide power_one_over)
qed

lemma pow2_strict_mono: "a < b \<Longrightarrow> pow2 a < pow2 b"
  unfolding pow2_powi by (rule power_int_strict_increasing) simp_all

lemma pow2_mono: "a \<le> b \<Longrightarrow> pow2 a \<le> pow2 b"
  unfolding pow2_powi by (rule power_int_increasing) simp_all

lemma pow2_exponent_unique:
  assumes "pow2 a \<le> x" "x < pow2 (a + 1)" "pow2 b \<le> x" "x < pow2 (b + 1)"
  shows "a = b"
proof (rule ccontr)
  assume "a \<noteq> b"
  then consider "a + 1 \<le> b" | "b + 1 \<le> a" by linarith
  then show False
  proof cases
    case 1
    from pow2_mono [OF 1] assms show False by linarith
  next
    case 2
    from pow2_mono [OF 2] assms show False by linarith
  qed
qed

lemma bitlength_bounds:
  "0 < n \<Longrightarrow> 0 < bitlength n \<and> 2 ^ nat (bitlength n - 1) \<le> n \<and> n < 2 ^ nat (bitlength n)"
proof (induction n rule: bitlength.induct)
  case (1 n)
  show ?case
  proof (cases "n = 1")
    case True
    have "bitlength 1 = 1"
      by (simp add: bitlength.simps [of 1] bitlength.simps [of 0])
    with True show ?thesis by simp
  next
    case False
    with "1.prems" have half: "0 < n div 2" by linarith
    from "1.prems" have "\<not> n \<le> 0" by simp
    from "1.IH" [OF this half]
    have ih: "0 < bitlength (n div 2)"
      "2 ^ nat (bitlength (n div 2) - 1) \<le> n div 2"
      "n div 2 < 2 ^ nat (bitlength (n div 2))"
      by blast+
    define k where "k = bitlength (n div 2)"
    have bl: "bitlength n = 1 + k"
      using "1.prems" by (subst bitlength.simps) (simp add: k_def)
    have k: "0 < k" using ih(1) by (simp add: k_def)
    then have nk: "nat (1 + k - 1) = Suc (nat (k - 1))" "nat (1 + k) = Suc (nat k)"
      by simp_all
    have "2 * 2 ^ nat (k - 1) \<le> 2 * (n div 2)"
      using ih(2) by (simp add: k_def)
    also have "\<dots> \<le> n" by simp
    finally have lo: "(2::int) ^ nat (1 + k - 1) \<le> n"
      by (simp only: nk power_Suc)
    have "n div 2 + 1 \<le> 2 ^ nat k"
      using ih(3) by (simp add: k_def)
    then have "2 * (n div 2) + 2 \<le> 2 * 2 ^ nat k" by simp
    moreover have "n < 2 * (n div 2) + 2" by linarith
    ultimately have hi: "n < (2::int) ^ nat (1 + k)"
      by (simp only: nk power_Suc)
    show ?thesis
      unfolding bl using lo hi k by simp
  qed
qed


lemma ilog2_bounds:
  assumes "0 < x"
  shows "pow2 (ilog2 x) \<le> x \<and> x < pow2 (ilog2 x + 1)"
proof (cases "1 \<le> x")
  case True
  define n where "n = \<lfloor>x\<rfloor>"
  have n: "0 < n" using True by (simp add: n_def)
  define k where "k = bitlength n"
  from bitlength_bounds [OF n]
  have k: "0 < k" "2 ^ nat (k - 1) \<le> n" "n < 2 ^ nat k"
    by (simp_all add: k_def)
  have il: "ilog2 x = k - 1"
    using True by (simp add: ilog2_def n_def k_def)
  have "(of_int (2 ^ nat (k - 1)) :: rat) \<le> of_int n"
    using k(2) by (simp only: of_int_le_iff)
  also have "\<dots> \<le> x" by (simp add: n_def)
  finally have lo: "pow2 (k - 1) \<le> x"
    using k(1) by (simp add: pow2_def)
  have "n + 1 \<le> 2 ^ nat k" using k(3) by simp
  then have "(of_int (n + 1) :: rat) \<le> of_int (2 ^ nat k)"
    by (simp only: of_int_le_iff)
  moreover have "x < of_int (n + 1)"
    unfolding n_def by linarith
  ultimately have hi: "x < pow2 k"
    using k(1) by (simp add: pow2_def)
  show ?thesis
    unfolding il using lo hi by simp
next
  case False
  define y where "y = 1 / x"
  have y: "1 < y" using False assms by (simp add: y_def)
  define n where "n = \<lceil>y\<rceil> - 1"
  have "2 \<le> \<lceil>y\<rceil>" using y by (simp add: le_ceiling_iff)
  then have n: "0 < n" by (simp add: n_def)
  have ny: "of_int n < y" "y \<le> of_int n + 1"
    unfolding n_def by linarith+
  define k where "k = bitlength n"
  from bitlength_bounds [OF n]
  have k: "0 < k" "2 ^ nat (k - 1) \<le> n" "n < 2 ^ nat k"
    by (simp_all add: k_def)
  have il: "ilog2 x = - k"
    using False by (simp add: ilog2_def n_def k_def y_def)
  have "(of_int (2 ^ nat (k - 1)) :: rat) \<le> of_int n"
    using k(2) by (simp only: of_int_le_iff)
  then have "(2::rat) ^ nat (k - 1) \<le> of_int n"
    by (simp only: of_int_power of_int_numeral)
  with ny(1) have ylo: "2 ^ nat (k - 1) < y" by linarith
  have "n + 1 \<le> 2 ^ nat k" using k(3) by simp
  then have "(of_int (n + 1) :: rat) \<le> of_int (2 ^ nat k)"
    by (simp only: of_int_le_iff)
  then have "(of_int n :: rat) + 1 \<le> 2 ^ nat k"
    by (simp only: of_int_power of_int_numeral of_int_add of_int_1)
  with ny(2) have yhi: "y \<le> 2 ^ nat k" by linarith
  have x: "x = 1 / y" using assms by (simp add: y_def)
  have y0: "0 < y" using y by simp
  have lo: "pow2 (- k) \<le> x"
    using k(1) yhi y0 unfolding x by (simp add: pow2_def field_simps)
  have hi: "x < pow2 (- k + 1)"
  proof (cases "k = 1")
    case True
    then show ?thesis using False by (simp add: pow2_def)
  next
    case False
    with k(1) have "\<not> 0 \<le> - k + 1" "nat (- (- k + 1)) = nat (k - 1)" by simp_all
    then show ?thesis
      using ylo y0 unfolding x by (simp add: pow2_def field_simps)
  qed
  show ?thesis
    unfolding il using lo hi by simp
qed

lemma ilog2_eq:
  assumes "pow2 k \<le> x" "x < pow2 (k + 1)"
  shows "ilog2 x = k"
proof -
  have "0 < x" using assms(1) pow2_pos [of k] by linarith
  from ilog2_bounds [OF this] assms show ?thesis
    by (intro pow2_exponent_unique [of "ilog2 x" x k]) simp_all
qed

lemma round_half_even_near:
  assumes "\<bar>t - of_int m\<bar> < 1 / 2"
  shows "round_half_even t = m"
proof (cases "of_int m \<le> t")
  case True
  with assms have "\<lfloor>t\<rfloor> = m" by (intro floor_unique) linarith+
  with assms True show ?thesis
    by (simp add: round_half_even_def Let_def)
next
  case False
  with assms have f: "\<lfloor>t\<rfloor> = m - 1" by (intro floor_unique) (simp, linarith)+
  have "\<not> t - of_int (m - 1) < 1 / 2" "1 / 2 < t - of_int (m - 1)"
    using assms False by (simp, linarith)+
  then show ?thesis
    unfolding round_half_even_def Let_def f by simp
qed

lemma round_half_even_tie:
  assumes "t = of_int m + 1 / 2"
  shows "round_half_even t = (if even m then m else m + 1)"
proof -
  have "\<lfloor>t\<rfloor> = m" unfolding assms by (intro floor_unique) simp_all
  then show ?thesis
    unfolding round_half_even_def Let_def by (simp add: assms)
qed

lemma fl_scale:
  assumes "- 1074 \<le> e" "pow2 (e + 52) \<le> x" "x < pow2 (e + 53)"
  shows "fl x = of_int (round_half_even (x / pow2 e)) * pow2 e"
proof -
  have x: "0 < x" using assms(2) pow2_pos [of "e + 52"] by linarith
  have "ilog2 x = e + 52"
    using assms(2,3) by (intro ilog2_eq) (simp_all add: add.commute add.left_commute)
  then have "max (ilog2 \<bar>x\<bar> - 52) (- 1074) = e"
    using x assms(1) by simp
  then show ?thesis
    using x by (simp add: fl_def Let_def)
qed

lemma fl_value:
  assumes "- 1074 \<le> e" "pow2 (e + 52) \<le> x" "x < pow2 (e + 53)"
    and "\<bar>x / pow2 e - of_int m\<bar> < 1 / 2" and "y = of_int m * pow2 e"
  shows "fl x = y"
  using fl_scale [OF assms(1-3)] round_half_even_near [OF assms(4)] assms(5) by simp

lemma fl_value_tie:
  assumes "- 1074 \<le> e" "pow2 (e + 52) \<le> x" "x < pow2 (e + 53)"
    and "x / pow2 e = of_int m + 1 / 2" and "y = of_int (if even m then m else m + 1) * pow2 e"
  shows "fl x = y"
  using fl_scale [OF assms(1-3)] round_half_even_tie [OF assms(4)] assms(5) by simp

lemma Math_round_value:
  assumes "of_int k \<le> x + 1 / 2" "x + 1 / 2 < of_int k + 1" "y = of_int k"
  shows "Math_round x = y"
  unfolding Math_round_def assms(3) using assms(1,2) by (simp only: floor_unique)

lemma round_half_even_nonneg: "0 \<le> t \<Longrightarrow> 0 \<le> round_half_even t"
  by (simp add: round_half_even_def Let_def)

lemma fl_nonneg: "0 \<le> x \<Longrightarrow> 0 \<le> fl x"
proof (cases "x = 0")
  case True
  then show ?thesis by (simp add: fl_def)
next
  case False
  assume "0 \<le> x"
  with False have pos: "0 < x" by simp
  define s where "s = pow2 (max (ilog2 \<bar>x\<bar> - 52) (- 1074))"
  have s: "0 < s" by (simp add: s_def pow2_pos)
  have "0 \<le> round_half_even (\<bar>x\<bar> / s)"
    using pos s by (intro round_half_even_nonneg) simp
  then have "0 \<le> sgn x * of_int (round_half_even (\<bar>x\<bar> / s)) * s"
    using pos s by simp
  then show ?thesis
    using False by (simp add: fl_def Let_def s_def)
qed

lemma pow2_add: "pow2 (a + b) = pow2 a * pow2 b"
  unfolding pow2_powi by (rule power_int_add) simp

lemma pow2_of_nonneg: "0 \<le> k \<Longrightarrow> pow2 k = of_int (2 ^ nat k)"
  by (simp add: pow2_def)

lemma round_half_even_of_int: "round_half_even (of_int n) = n"
  by (simp add: round_half_even_def)

lemma round_half_even_floor: "\<lfloor>t\<rfloor> \<le> round_half_even t \<and> round_half_even t \<le> \<lfloor>t\<rfloor> + 1"
  by (simp add: round_half_even_def Let_def)

lemma round_half_even_mono:
  assumes "s \<le> t"
  shows "round_half_even s \<le> round_half_even t"
proof (cases "\<lfloor>s\<rfloor> = \<lfloor>t\<rfloor>")
  case False
  moreover from assms have "\<lfloor>s\<rfloor> \<le> \<lfloor>t\<rfloor>" by (rule floor_mono)
  ultimately have "\<lfloor>s\<rfloor> + 1 \<le> \<lfloor>t\<rfloor>" by simp
  with round_half_even_floor [of s] round_half_even_floor [of t] show ?thesis
    by linarith
next
  case True
  then show ?thesis
    using assms unfolding round_half_even_def Let_def by (simp add: True) 
qed

lemma ilog2_mono:
  assumes "0 < x" "x \<le> y"
  shows "ilog2 x \<le> ilog2 y"
proof (rule ccontr)
  assume "\<not> ilog2 x \<le> ilog2 y"
  then have "ilog2 y + 1 \<le> ilog2 x" by simp
  from pow2_mono [OF this] ilog2_bounds [OF assms(1)] have "pow2 (ilog2 y + 1) \<le> x"
    by linarith
  moreover from assms have "0 < y" by simp
  from ilog2_bounds [OF this] have "y < pow2 (ilog2 y + 1)" by simp
  ultimately show False using assms(2) by linarith
qed

lemma fl_pos:
  "0 < x \<Longrightarrow>
   fl x = of_int (round_half_even (x / pow2 (max (ilog2 x - 52) (- 1074))))
          * pow2 (max (ilog2 x - 52) (- 1074))"
  by (simp add: fl_def Let_def)

lemma fl_mono_pos:
  assumes "0 < x" "x \<le> y"
  shows "fl x \<le> fl y"
proof -
  from assms have y: "0 < y" by simp
  define ex where "ex = max (ilog2 x - 52) (- 1074)"
  define ey where "ey = max (ilog2 y - 52) (- 1074)"
  have fx: "fl x = of_int (round_half_even (x / pow2 ex)) * pow2 ex"
    unfolding ex_def using assms(1) by (rule fl_pos)
  have fy: "fl y = of_int (round_half_even (y / pow2 ey)) * pow2 ey"
    unfolding ey_def using y by (rule fl_pos)
  have le: "ilog2 x \<le> ilog2 y" using assms by (rule ilog2_mono)
  show ?thesis
  proof (cases "ex = ey")
    case True
    have "x / pow2 ey \<le> y / pow2 ey"
      using assms(2) pow2_pos [of ey] by (simp add: divide_right_mono)
    from round_half_even_mono [OF this]
    have "(of_int (round_half_even (x / pow2 ey)) :: rat) \<le> of_int (round_half_even (y / pow2 ey))"
      by (simp only: of_int_le_iff)
    then show ?thesis
      unfolding fx fy True using pow2_pos [of ey] by (simp add: mult_right_mono)
  next
    case False
    with le have lt: "ilog2 x < ilog2 y" and ey: "ey = ilog2 y - 52"
      unfolding ex_def ey_def by linarith+
    have low: "pow2 (ilog2 y) \<le> fl y"
    proof -
      have "pow2 (ilog2 y) = pow2 52 * pow2 ey"
        unfolding ey pow2_add [symmetric] by simp
      then have q: "pow2 52 \<le> y / pow2 ey"
        using ilog2_bounds [OF y] pow2_pos [of ey] by (simp add: pos_le_divide_eq)
      have "pow2 52 = of_int (2 ^ 52)" by (simp add: pow2_def)
      with q have "(of_int (2 ^ 52) :: rat) \<le> y / pow2 ey" by simp
      from round_half_even_mono [OF this]
      have "2 ^ 52 \<le> round_half_even (y / pow2 ey)"
        by (simp only: round_half_even_of_int)
      then have "(of_int (2 ^ 52) :: rat) \<le> of_int (round_half_even (y / pow2 ey))"
        by (simp only: of_int_le_iff)
      then have "pow2 52 * pow2 ey \<le> of_int (round_half_even (y / pow2 ey)) * pow2 ey"
        using pow2_pos [of ey] \<open>pow2 52 = of_int (2 ^ 52)\<close> by (simp add: mult_right_mono)
      then show ?thesis
        unfolding fy \<open>pow2 (ilog2 y) = pow2 52 * pow2 ey\<close> .
    qed
    have up: "fl x \<le> pow2 (ilog2 x + 1)"
    proof (cases "ex \<le> ilog2 x + 1")
      case True
      define k where "k = ilog2 x + 1 - ex"
      have k: "0 \<le> k" using True by (simp add: k_def)
      have split: "pow2 (ilog2 x + 1) = pow2 k * pow2 ex"
        unfolding k_def pow2_add [symmetric] by simp
      then have "x / pow2 ex \<le> pow2 k"
        using ilog2_bounds [OF assms(1)] pow2_pos [of ex] by (simp add: pos_divide_le_eq)
      then have "x / pow2 ex \<le> of_int (2 ^ nat k)"
        by (simp only: pow2_of_nonneg [OF k])
      from round_half_even_mono [OF this]
      have "round_half_even (x / pow2 ex) \<le> 2 ^ nat k"
        by (simp only: round_half_even_of_int)
      then have "(of_int (round_half_even (x / pow2 ex)) :: rat) \<le> of_int (2 ^ nat k)"
        by (simp only: of_int_le_iff)
      then have "of_int (round_half_even (x / pow2 ex)) * pow2 ex \<le> pow2 k * pow2 ex"
        using pow2_pos [of ex] by (simp only: pow2_of_nonneg [OF k] mult_right_mono less_imp_le)
      then show ?thesis
        unfolding fx split .
    next
      case False
      then have "ilog2 x + 1 \<le> ex - 1" by simp
      from pow2_mono [OF this] ilog2_bounds [OF assms(1)] have "x < pow2 (ex - 1)"
        by linarith
      moreover have "pow2 ex = 2 * pow2 (ex - 1)"
        using pow2_add [of 1 "ex - 1"] by (simp add: pow2_def)
      ultimately have "x / pow2 ex < 1 / 2"
        using pow2_pos [of "ex - 1"] by (simp add: pos_divide_less_eq)
      moreover have "0 \<le> x / pow2 ex"
        using assms(1) pow2_pos [of ex] by simp
      ultimately have "round_half_even (x / pow2 ex) = 0"
        by (intro round_half_even_near) simp
      then have "fl x = 0" unfolding fx by simp
      then show ?thesis using pow2_pos [of "ilog2 x + 1"] by simp
    qed
    from lt have "ilog2 x + 1 \<le> ilog2 y" by simp
    from pow2_mono [OF this] up low show ?thesis by linarith
  qed
qed

lemma fl_minus: "fl (- x) = - fl x"
  by (simp add: fl_def Let_def)

lemma fl_mono:
  assumes "x \<le> y"
  shows "fl x \<le> fl y"
proof -
  consider "0 < x" | "x \<le> 0" "0 \<le> y" | "y < 0" using assms by linarith
  then show ?thesis
  proof cases
    case 1
    then show ?thesis using assms by (rule fl_mono_pos)
  next
    case 2
    from 2(1) have "0 \<le> fl (- x)" by (intro fl_nonneg) simp
    then have "fl x \<le> 0" using fl_minus [of x] by simp
    also from 2(2) have "0 \<le> fl y" by (rule fl_nonneg)
    finally show ?thesis .
  next
    case 3
    then have "0 < - y" "- y \<le> - x" using assms by simp_all
    then have "fl (- y) \<le> fl (- x)" by (rule fl_mono_pos)
    then show ?thesis by (simp add: fl_minus)
  qed
qed

lemma Math_round_mono: "x \<le> y \<Longrightarrow> Math_round x \<le> Math_round y"
  unfolding Math_round_def by (simp add: floor_mono)

section \<open>Properties of the price summary\<close>

lemma Math_round_nonneg: "0 \<le> x \<Longrightarrow> Math_round x = of_int (round_half_away_from_zero x)"
  by (simp add: Math_round_def round_half_away_from_zero_def)

lemma foldl_js_add_nonneg: "0 \<le> a \<Longrightarrow> list_all (\<lambda>p. 0 < p) xs \<Longrightarrow> 0 \<le> foldl js_add a xs"
proof (induction xs arbitrary: a)
  case Nil
  then show ?case by simp
next
  case (Cons x xs)
  have "0 \<le> js_add a x"
    unfolding js_add_def using Cons.prems by (intro fl_nonneg) simp
  with Cons show ?case by simp
qed

lemma mean_nonneg: "list_all (\<lambda>p. 0 < p) xs \<Longrightarrow> 0 \<le> mean xs"
  unfolding mean_def js_div_def
  by (intro fl_nonneg divide_nonneg_nonneg foldl_js_add_nonneg) simp_all

lemma round_one_decimal_eq:
  "0 \<le> x \<Longrightarrow> js_div (Math_round (js_mul x 10)) 10 = round_one_decimal x"
  unfolding round_one_decimal_def js_mul_def
  by (subst Math_round_nonneg) (auto intro: fl_nonneg)

lemma calculatePriceStats_eq_summarize: "calculatePriceStats prices = summarize prices"
proof (cases "filter (\<lambda>p. 0 < p) (map price prices)")
  case Nil
  then show ?thesis
    by (simp add: calculatePriceStats_def summarize_def)
next
  case (Cons v vs)
  define ps where "ps = v # vs"
  have ps: "filter (\<lambda>p. 0 < p) (map price prices) = ps" "ps \<noteq> []"
    using Cons by (simp_all add: ps_def)
  have allpos: "\<forall>x\<in>set ps. 0 < x"
    unfolding ps(1) [symmetric] by simp
  have ne: "prices \<noteq> []" using Cons by auto
  have mn: "fold min vs v = Min (set ps)"
    unfolding ps_def by (rule Min.set_eq_fold [symmetric])
  have mx: "fold max vs v = Max (set ps)"
    unfolding ps_def by (rule Max.set_eq_fold [symmetric])
  have "Min (set ps) \<in> set ps" "Max (set ps) \<in> set ps"
    using ps(2) by (simp_all del: Min_in Max_in add: Min_in Max_in)
  with allpos have "0 < Min (set ps)" "0 < Max (set ps)"
    by blast+
  then have mn0: "0 \<le> Min (set ps)" and mx0: "0 \<le> Max (set ps)"
    by (simp_all only: less_imp_le)
  have av0: "0 \<le> mean ps"
    using allpos by (intro mean_nonneg) (simp add: list_all_iff)
  have lhs: "calculatePriceStats prices =
      \<lparr>averagePrice = js_div (Math_round (js_mul (mean ps) 10)) 10,
       lowPrice = js_div (Math_round (js_mul (Min (set ps)) 10)) 10,
       highPrice = js_div (Math_round (js_mul (Max (set ps)) 10)) 10\<rparr>"
    unfolding calculatePriceStats_def Cons list.case Let_def mn mx
    using ne by (simp add: mean_def ps_def)
  have rhs: "summarize prices =
      \<lparr>averagePrice = round_one_decimal (mean ps),
       lowPrice = round_one_decimal (Min (set ps)),
       highPrice = round_one_decimal (Max (set ps))\<rparr>"
    unfolding summarize_def ps(1) Let_def using ps(2) by simp
  show ?thesis
    unfolding lhs rhs
    by (simp only: round_one_decimal_eq [OF mn0] round_one_decimal_eq [OF mx0]
        round_one_decimal_eq [OF av0])
qed

lemma fallbackPrices_ordered:
  "list_all (\<lambda>(k, p). low p \<le> average p \<and> average p \<le> high p) fallbackPrices"
  by (simp add: fallbackPrices_def fl_mono)

lemma getFallbackPrice_ordered:
  "low (getFallbackPrice pid) \<le> average (getFallbackPrice pid)
   \<and> average (getFallbackPrice pid) \<le> high (getFallbackPrice pid)"
proof (cases "map_of fallbackPrices pid")
  case None
  then show ?thesis by (simp add: getFallbackPrice_def)
next
  case (Some p)
  then have "(pid, p) \<in> set fallbackPrices" by (rule map_of_SomeD)
  with fallbackPrices_ordered have "low p \<le> average p \<and> average p \<le> high p"
    unfolding list_all_iff by (rule_tac bspec [where P = "\<lambda>(k, p). low p \<le> average p \<and> average p \<le> high p" and x = "(pid, p)", simplified])
  then show ?thesis by (simp add: getFallbackPrice_def Some)
qed

lemma calculatePriceStats_low_le_high:
  "lowPrice (calculatePriceStats prices) \<le> highPrice (calculatePriceStats prices)"
proof (cases "filter (\<lambda>p. 0 < p) (map price prices)")
  case Nil
  then show ?thesis by (simp add: calculatePriceStats_def)
next
  case (Cons v vs)
  have "Min (set (v # vs)) \<le> Max (set (v # vs))"
    by (intro Min_le Max_in) simp_all
  then have "fold min vs v \<le> fold max vs v"
    by (simp only: Min.set_eq_fold Max.set_eq_fold)
  then have "js_div (Math_round (js_mul (fold min vs v) 10)) 10
             \<le> js_div (Math_round (js_mul (fold max vs v) 10)) 10"
    unfolding js_div_def js_mul_def
    by (intro fl_mono divide_right_mono Math_round_mono mult_right_mono) simp_all
  then show ?thesis
    unfolding calculatePriceStats_def Cons Let_def by (simp split: if_splits)
qed

lemma calculatePriceStats_three_prices:
  "calculatePriceStats
      [\<lparr>storeName = ''Shufersal'', storeChain = ''Shufersal'', price = fl (1295 / 100),
        priceUpdateDate = None\<rparr>,
       \<lparr>storeName = ''Shufersal'', storeChain = ''Shufersal'', price = fl (1295 / 100),
        priceUpdateDate = None\<rparr>,
       \<lparr>storeName = ''Shufersal'', storeChain = ''Shufersal'', price = fl (1295 / 100),
        priceUpdateDate = None\<rparr>]
   = \<lparr>averagePrice = fl (129 / 10), lowPrice = 13, highPrice = 13\<rparr>"
proof -
  have v1: "fl (1295 / 100) = 3645100948402995 / 281474976710656"
    by (rule fl_value [where e = "- 49" and m = 7290201896805990]) (simp_all add: pow2_def)
  have f2: "js_add 0 (3645100948402995 / 281474976710656) = 3645100948402995 / 281474976710656"
    unfolding js_add_def by (rule fl_value [where e = "- 49" and m = 7290201896805990]) (simp_all add: pow2_def)
  have f3: "js_add (3645100948402995 / 281474976710656) (3645100948402995 / 281474976710656) = 3645100948402995 / 140737488355328"
    unfolding js_add_def by (rule fl_value [where e = "- 48" and m = 7290201896805990]) (simp_all add: pow2_def)
  have f4: "js_add (3645100948402995 / 140737488355328) (3645100948402995 / 281474976710656) = 1366912855651123 / 35184372088832"
    unfolding js_add_def by (rule fl_value_tie [where e = "- 47" and m = 5467651422604492]) (simp_all add: pow2_def)
  have f5: "js_div (1366912855651123 / 35184372088832) 3 = 7290201896805989 / 562949953421312"
    unfolding js_div_def by (rule fl_value [where e = "- 49" and m = 7290201896805989]) (simp_all add: pow2_def)
  have f6: "js_mul (7290201896805989 / 562949953421312) 10 = 4556376185503743 / 35184372088832"
    unfolding js_mul_def by (rule fl_value [where e = "- 45" and m = 4556376185503743]) (simp_all add: pow2_def)
  have f7: "Math_round (4556376185503743 / 35184372088832) = 129"
    by (rule Math_round_value [where k = 129]) simp_all
  have f8: "js_div 129 10 = 7262054399134925 / 562949953421312"
    unfolding js_div_def by (rule fl_value [where e = "- 49" and m = 7262054399134925]) (simp_all add: pow2_def)
  have f9: "js_mul (3645100948402995 / 281474976710656) 10 = 259 / 2"
    unfolding js_mul_def by (rule fl_value [where e = "- 45" and m = 4556376185503744]) (simp_all add: pow2_def)
  have f10: "Math_round (259 / 2) = 130"
    by (rule Math_round_value [where k = 130]) simp_all
  have f11: "js_div 130 10 = 13"
    unfolding js_div_def by (rule fl_value [where e = "- 49" and m = 7318349394477056]) (simp_all add: pow2_def)
  have v12: "fl (129 / 10) = 7262054399134925 / 562949953421312"
    by (rule fl_value [where e = "- 49" and m = 7262054399134925]) (simp_all add: pow2_def)
  show ?thesis
    unfolding v1 v12
    by (simp add: calculatePriceStats_def Let_def f2 f3 f4 f5 f6 f7 f8 f9 f10 f11)
qed

lemma twelve_ninety_below_thirteen: "fl (129 / 10) < 13"
proof -
  have v12: "fl (129 / 10) = 7262054399134925 / 562949953421312"
    by (rule fl_value [where e = "- 49" and m = 7262054399134925]) (simp_all add: pow2_def)
  show ?thesis
    unfolding v12 by simp
qed

lemma twelve_ninety_five_positive: "0 < fl (1295 / 100)"
proof -
  have v1: "fl (1295 / 100) = 3645100948402995 / 281474976710656"
    by (rule fl_value [where e = "- 49" and m = 7290201896805990]) (simp_all add: pow2_def)
  show ?thesis
    unfolding v1 by simp
qed

lemma calculatePriceStats_examples:
  "calculatePriceStats [] = \<lparr>averagePrice = 0, lowPrice = 0, highPrice = 0\<rparr>
   \<and> calculatePriceStats
      [\<lparr>storeName = ''Shufersal'', storeChain = ''Shufersal'', price = 5,
        priceUpdateDate = None\<rparr>,
       \<lparr>storeName = ''Shufersal'', storeChain = ''Shufersal'', price = 15,
        priceUpdateDate = None\<rparr>]
     = \<lparr>averagePrice = 10, lowPrice = 5, highPrice = 15\<rparr>"
proof -
  have f1: "js_add 0 5 = 5"
    unfolding js_add_def by (rule fl_value [where e = "- 50" and m = 5629499534213120]) (simp_all add: pow2_def)
  have f2: "js_add 5 15 = 20"
    unfolding js_add_def by (rule fl_value [where e = "- 48" and m = 5629499534213120]) (simp_all add: pow2_def)
  have f3: "js_div 20 2 = 10"
    unfolding js_div_def by (rule fl_value [where e = "- 49" and m = 5629499534213120]) (simp_all add: pow2_def)
  have f4: "js_mul 10 10 = 100"
    unfolding js_mul_def by (rule fl_value [where e = "- 46" and m = 7036874417766400]) (simp_all add: pow2_def)
  have f5: "Math_round 100 = 100"
    by (rule Math_round_value [where k = 100]) simp_all
  have f6: "js_div 100 10 = 10"
    unfolding js_div_def by (rule fl_value [where e = "- 49" and m = 5629499534213120]) (simp_all add: pow2_def)
  have f7: "js_mul 5 10 = 50"
    unfolding js_mul_def by (rule fl_value [where e = "- 47" and m = 7036874417766400]) (simp_all add: pow2_def)
  have f8: "Math_round 50 = 50"
    by (rule Math_round_value [where k = 50]) simp_all
  have f9: "js_div 50 10 = 5"
    unfolding js_div_def by (rule fl_value [where e = "- 50" and m = 5629499534213120]) (simp_all add: pow2_def)
  have f10: "js_mul 15 10 = 150"
    unfolding js_mul_def by (rule fl_value [where e = "- 45" and m = 5277655813324800]) (simp_all add: pow2_def)
  have f11: "Math_round 150 = 150"
    by (rule Math_round_value [where k = 150]) simp_all
  have f12: "js_div 150 10 = 15"
    unfolding js_div_def by (rule fl_value [where e = "- 49" and m = 8444249301319680]) (simp_all add: pow2_def)
  show ?thesis
    by (simp add: calculatePriceStats_def Let_def f1 f2 f3 f4 f5 f6 f7 f8 f9 f10 f11 f12)
qed

section \<open>The products route when the crawl fails\<close>

text \<open>
  C1. The claim is that the products route, when the locator finds no URL, answers with
  products that are marked as fallback. On a listing page without a price file and an empty
  cache the route answers with the fallback products, which are 35, and with the source
  \<open>crawled\<close>: the marker follows the query parameter alone.
\<close>

theorem GET_marks_fallback_as_crawled:
  "fetchPriceFileUrls (Inr \<lparr>ok = True, status = 200, statusText = ''OK'',
                             text_body = Inr ''<html><body>No files</body></html>''\<rparr>) = Inr []
   \<and> GET None \<lparr>priceCache = [], lastCrawlTime = None\<rparr>
         \<lparr>listing = Inr \<lparr>ok = True, status = 200, statusText = ''OK'',
                          text_body = Inr ''<html><body>No files</body></html>''\<rparr>,
          fileItems = (\<lambda>u. Inl NonError), startedAt = 1\<rparr> 0 2
       = (\<lparr>respSuccess = True, products = getFallbackProducts, source = ''crawled'',
           respError = None, timestamp = 2\<rparr>,
          \<lparr>priceCache = [], lastCrawlTime = None\<rparr>)
   \<and> length getFallbackProducts = 35"
proof -
  have m: "match_all urlRegex ''<html><body>No files</body></html>'' = []"
    by (simp add: match_all.simps urlRegex_def lit_def rx_match_def)
  have urls: "fetchPriceFileUrls (Inr \<lparr>ok = True, status = 200, statusText = ''OK'',
                             text_body = Inr ''<html><body>No files</body></html>''\<rparr>) = Inr []"
    by (simp add: fetchPriceFileUrls_def m)
  have crawl: "\<not> success (crawlShufersal
         \<lparr>listing = Inr \<lparr>ok = True, status = 200, statusText = ''OK'',
                          text_body = Inr ''<html><body>No files</body></html>''\<rparr>,
          fileItems = (\<lambda>u. Inl NonError), startedAt = 1\<rparr>)"
    by (simp add: crawlShufersal_def urls)
  have n: "length getFallbackProducts = 35"
    by (simp add: getFallbackProducts_def productCatalog_def)
  show ?thesis
    using crawl n urls
    by (simp add: GET_def fetchAllPrices_def fetchAllPrices_start_def cacheFresh_def
        fetchAllPrices_resume_def)
qed

section \<open>Removing duplicates and the order of the records\<close>

lemma map_of_dedupe_step:
  "map_of (dedupe_step m item) c =
     (if c = itemCode item
      then (case map_of m c of
              None \<Rightarrow> Some item
            | Some existing \<Rightarrow> if itemPrice item < itemPrice existing then Some item else Some existing)
      else map_of m c)"
  by (simp add: dedupe_step_def update_conv' split: option.splits)

lemma lowest_for_step:
  assumes "lowest_for its c (map_of m c)"
  shows "lowest_for (its @ [item]) c (map_of (dedupe_step m item) c)"
proof (cases "c = itemCode item")
  case False
  then have "map_of (dedupe_step m item) c = map_of m c"
    by (simp add: map_of_dedupe_step)
  with assms False show ?thesis
    by (cases "map_of m c") (auto simp: lowest_for_def)
next
  case True
  show ?thesis
  proof (cases "map_of m c")
    case None
    then have "map_of (dedupe_step m item) c = Some item"
      using True by (simp add: map_of_dedupe_step)
    moreover from assms None have "\<forall>r'\<in>set its. itemCode r' \<noteq> c"
      by (auto simp: lowest_for_def)
    then have "\<forall>r'\<in>set (its @ [item]). itemCode r' = c \<longrightarrow> itemPrice item \<le> itemPrice r'"
      by auto
    ultimately show ?thesis
      using True by (simp add: lowest_for_def)
  next
    case (Some existing)
    from assms Some have ex: "existing \<in> set its" "itemCode existing = c"
      "\<forall>r'\<in>set its. itemCode r' = c \<longrightarrow> itemPrice existing \<le> itemPrice r'"
      by (simp_all add: lowest_for_def)
    show ?thesis
    proof (cases "itemPrice item < itemPrice existing")
      case less: True
      then have "map_of (dedupe_step m item) c = Some item"
        using True Some by (simp add: map_of_dedupe_step)
      moreover have "\<forall>r'\<in>set (its @ [item]). itemCode r' = c \<longrightarrow> itemPrice item \<le> itemPrice r'"
        using ex(3) less by fastforce
      ultimately show ?thesis
        using True by (simp add: lowest_for_def)
    next
      case nless: False
      then have "map_of (dedupe_step m item) c = Some existing"
        using True Some by (simp add: map_of_dedupe_step)
      moreover have "\<forall>r'\<in>set (its @ [item]). itemCode r' = c \<longrightarrow> itemPrice existing \<le> itemPrice r'"
        using ex(3) nless by fastforce
      ultimately show ?thesis
        using ex(1,2) by (simp add: lowest_for_def)
    qed
  qed
qed

lemma lowest_for_foldl:
  assumes "lowest_for its c (map_of m c)"
  shows "lowest_for (its @ rest) c (map_of (foldl dedupe_step m rest) c)"
  using assms
proof (induction rest arbitrary: its m)
  case Nil
  then show ?case by simp
next
  case (Cons item rest)
  from lowest_for_step [OF Cons.prems]
  have "lowest_for (its @ [item]) c (map_of (dedupe_step m item) c)" .
  from Cons.IH [OF this] show ?case by simp
qed

lemma lowest_for_dedupe: "lowest_for its c (map_of (dedupe its) c)"
proof -
  have "lowest_for [] c (map_of [] c)"
    by (simp add: lowest_for_def)
  from lowest_for_foldl [OF this, of its] show ?thesis
    by (simp add: dedupe_def)
qed

lemma lowest_for_cong:
  assumes "set its = set its'" "lowest_for its c kept"
  shows "lowest_for its' c kept"
  using assms(2) unfolding lowest_for_def assms(1) .

lemma lowest_for_price:
  assumes "lowest_for its c k1" "lowest_for its c k2"
  shows "map_option itemPrice k1 = map_option itemPrice k2"
proof (cases k1)
  case None
  with assms(1) have no: "c \<notin> itemCode ` set its" by (simp add: lowest_for_def)
  show ?thesis
  proof (cases k2)
    case None
    with \<open>k1 = None\<close> show ?thesis by simp
  next
    case (Some r)
    with assms(2) have "r \<in> set its" "itemCode r = c" by (simp_all add: lowest_for_def)
    with no show ?thesis by blast
  qed
next
  case (Some r1)
  with assms(1) have r1: "r1 \<in> set its" "itemCode r1 = c"
    "\<forall>r'\<in>set its. itemCode r' = c \<longrightarrow> itemPrice r1 \<le> itemPrice r'"
    by (simp_all add: lowest_for_def)
  show ?thesis
  proof (cases k2)
    case None
    with assms(2) have "c \<notin> itemCode ` set its" by (simp add: lowest_for_def)
    with r1(1,2) show ?thesis by blast
  next
    case (Some r2)
    with assms(2) have r2: "r2 \<in> set its" "itemCode r2 = c"
      "\<forall>r'\<in>set its. itemCode r' = c \<longrightarrow> itemPrice r2 \<le> itemPrice r'"
      by (simp_all add: lowest_for_def)
    from r1(3) r2(1,2) have "itemPrice r1 \<le> itemPrice r2" by blast
    moreover from r2(3) r1(1,2) have "itemPrice r2 \<le> itemPrice r1" by blast
    ultimately show ?thesis
      using \<open>k1 = Some r1\<close> Some by simp
  qed
qed

text \<open>
  C2. The claim is that the mapping from item code to kept record is the same for every
  order of the records. Two records with the same code and the same price and with
  different names are kept in the order of their arrival: the first one stays.
\<close>

theorem dedupe_keeps_first_of_equal_prices:
  "mset [plainItem ''7290000066318'' ''Milk 1L'' 5, plainItem ''7290000066318'' ''Milk 1l'' 5]
   = mset [plainItem ''7290000066318'' ''Milk 1l'' 5, plainItem ''7290000066318'' ''Milk 1L'' 5]
   \<and> map_of (dedupe [plainItem ''7290000066318'' ''Milk 1L'' 5,
                       plainItem ''7290000066318'' ''Milk 1l'' 5]) ''7290000066318''
       = Some (plainItem ''7290000066318'' ''Milk 1L'' 5)
   \<and> map_of (dedupe [plainItem ''7290000066318'' ''Milk 1l'' 5,
                       plainItem ''7290000066318'' ''Milk 1L'' 5]) ''7290000066318''
       = Some (plainItem ''7290000066318'' ''Milk 1l'' 5)
   \<and> plainItem ''7290000066318'' ''Milk 1L'' 5 \<noteq> plainItem ''7290000066318'' ''Milk 1l'' 5"
  by (simp add: dedupe_def dedupe_step_def plainItem_def)

text \<open>
  C2, as the code has it. For two lists with the same records in any order: the record kept
  for an item code is one of the records with that code, and none of them has a lower price;
  the kept price of every code and the set of the kept codes are the same for both lists;
  and the whole mapping is the same when no two different records have the same code and
  the same price.
\<close>

theorem dedupe_permutation:
  assumes "mset its = mset its'"
  shows "(\<forall>c. lowest_for its c (map_of (dedupe its) c))
       \<and> (\<forall>c. map_option itemPrice (map_of (dedupe its') c)
                = map_option itemPrice (map_of (dedupe its) c))
       \<and> fst ` set (dedupe its') = fst ` set (dedupe its)
       \<and> ((\<forall>r\<in>set its. \<forall>r'\<in>set its.
              itemCode r = itemCode r' \<and> itemPrice r = itemPrice r' \<longrightarrow> r = r')
            \<longrightarrow> map_of (dedupe its') = map_of (dedupe its))"
proof -
  from assms [symmetric] have sets: "set its' = set its"
    by (rule mset_eq_setD)
  have a: "lowest_for its c (map_of (dedupe its) c)" for c
    by (rule lowest_for_dedupe)
  have b: "lowest_for its c (map_of (dedupe its') c)" for c
    using lowest_for_cong [OF sets lowest_for_dedupe [of its' c]] .
  have prices: "map_option itemPrice (map_of (dedupe its') c)
                = map_option itemPrice (map_of (dedupe its) c)" for c
    using lowest_for_price [OF b a] .
  have none_iff: "map_of (dedupe its') c = None \<longleftrightarrow> map_of (dedupe its) c = None" for c
  proof -
    have "(map_option itemPrice (map_of (dedupe its') c) = None)
          = (map_option itemPrice (map_of (dedupe its) c) = None)"
      by (simp only: prices)
    then show ?thesis by (simp only: option.map_disc_iff)
  qed
  have "dom (map_of (dedupe its')) = dom (map_of (dedupe its))"
    by (simp only: dom_def none_iff)
  then have keys: "fst ` set (dedupe its') = fst ` set (dedupe its)"
    by (simp only: dom_map_of_conv_image_fst)
  have same: "map_of (dedupe its') = map_of (dedupe its)"
    if uniq: "\<forall>r\<in>set its. \<forall>r'\<in>set its.
              itemCode r = itemCode r' \<and> itemPrice r = itemPrice r' \<longrightarrow> r = r'"
  proof (rule ext)
    fix c
    show "map_of (dedupe its') c = map_of (dedupe its) c"
    proof (cases "map_of (dedupe its') c")
      case None
      with none_iff [of c] show ?thesis by simp
    next
      case (Some r')
      with none_iff [of c] obtain r where r: "map_of (dedupe its) c = Some r"
        by (cases "map_of (dedupe its) c") simp_all
      from prices [of c] have pr: "itemPrice r = itemPrice r'"
        unfolding Some r by simp
      from a [of c] have rin: "r \<in> set its" "itemCode r = c"
        unfolding r lowest_for_def by simp_all
      from b [of c] have rin': "r' \<in> set its" "itemCode r' = c"
        unfolding Some lowest_for_def by simp_all
      from uniq rin(1)
      have "\<forall>x\<in>set its. itemCode r = itemCode x \<and> itemPrice r = itemPrice x \<longrightarrow> r = x"
        by (rule bspec)
      from this rin'(1)
      have "itemCode r = itemCode r' \<and> itemPrice r = itemPrice r' \<longrightarrow> r = r'"
        by (rule bspec)
      moreover have "itemCode r = itemCode r' \<and> itemPrice r = itemPrice r'"
        using rin(2) rin'(2) pr by (simp only: simp_thms)
      ultimately have "r = r'" by (rule mp)
      then show ?thesis unfolding Some r by simp
    qed
  qed
  show ?thesis
  proof (intro conjI allI impI)
    fix c
    show "lowest_for its c (map_of (dedupe its) c)"
      by (rule a)
    show "map_option itemPrice (map_of (dedupe its') c)
          = map_option itemPrice (map_of (dedupe its) c)"
      by (rule prices)
  next
    show "fst ` set (dedupe its') = fst ` set (dedupe its)"
      by (rule keys)
  next
    assume "\<forall>r\<in>set its. \<forall>r'\<in>set its.
              itemCode r = itemCode r' \<and> itemPrice r = itemPrice r' \<longrightarrow> r = r'"
    then show "map_of (dedupe its') = map_of (dedupe its)"
      by (rule same)
  qed
qed

theorem dedupe_permutation_witness:
  "mset [plainItem ''7290000066318'' ''Milk 1L'' 6, plainItem ''7290000066318'' ''Milk 1L'' 5]
   = mset [plainItem ''7290000066318'' ''Milk 1L'' 5, plainItem ''7290000066318'' ''Milk 1L'' 6]
   \<and> map_of (dedupe [plainItem ''7290000066318'' ''Milk 1L'' 5,
                       plainItem ''7290000066318'' ''Milk 1L'' 6])
       = map_of (dedupe [plainItem ''7290000066318'' ''Milk 1L'' 6,
                         plainItem ''7290000066318'' ''Milk 1L'' 5])
   \<and> map_of (dedupe [plainItem ''7290000066318'' ''Milk 1L'' 6,
                       plainItem ''7290000066318'' ''Milk 1L'' 5]) ''7290000066318''
       = Some (plainItem ''7290000066318'' ''Milk 1L'' 5)"
proof -
  let ?a = "plainItem ''7290000066318'' ''Milk 1L'' 6"
  let ?b = "plainItem ''7290000066318'' ''Milk 1L'' 5"
  have h: "mset [?a, ?b] = mset [?b, ?a]"
    by simp
  have u: "\<forall>r\<in>set [?a, ?b]. \<forall>r'\<in>set [?a, ?b].
             itemCode r = itemCode r' \<and> itemPrice r = itemPrice r' \<longrightarrow> r = r'"
    by (simp add: plainItem_def)
  from dedupe_permutation [OF h, THEN conjunct2, THEN conjunct2, THEN conjunct2]
  have "(\<forall>r\<in>set [?a, ?b]. \<forall>r'\<in>set [?a, ?b].
             itemCode r = itemCode r' \<and> itemPrice r = itemPrice r' \<longrightarrow> r = r')
        \<longrightarrow> map_of (dedupe [?b, ?a]) = map_of (dedupe [?a, ?b])" .
  from this u have same: "map_of (dedupe [?b, ?a]) = map_of (dedupe [?a, ?b])"
    by (rule mp)
  have kept: "map_of (dedupe [?a, ?b]) ''7290000066318'' = Some ?b"
    by (simp add: dedupe_def dedupe_step_def plainItem_def)
  from h same kept show ?thesis
    by (intro conjI)
qed

section \<open>Failures of the listing page\<close>

lemma fetchFileList_fails:
  "listingFails fetched \<Longrightarrow> fetchFileList fetched = []"
  unfolding listingFails_def fetchFileList_def
  by (cases fetched) (auto split: sum.splits if_splits)

lemma fetchPriceFileUrls_fails:
  "listingFails fetched \<Longrightarrow> isl (fetchPriceFileUrls fetched)"
  unfolding listingFails_def fetchPriceFileUrls_def
  by (cases fetched) (auto split: sum.splits if_splits)

lemma crawlShufersal_listing_error:
  assumes "fetchPriceFileUrls (listing env) = Inl e"
  shows "crawlShufersal env
         = \<lparr>success = False, crawledStore = ''Shufersal'', items = [],
             error = Some (message e), fetchedAt = startedAt env\<rparr>"
  unfolding crawlShufersal_def Let_def assms by simp

text \<open>
  C3. The claim is that the locator returns the empty sequence on every failure of the
  listing page. \<open>fetchPriceFileUrls\<close> raises instead: on the status 503 its result is the
  error with the message of the status line.
\<close>

theorem fetchPriceFileUrls_raises_on_status:
  "fetchPriceFileUrls (Inr \<lparr>ok = False, status = 503, statusText = ''Service Unavailable'',
                             text_body = Inr ''''\<rparr>)
   = Inl (Error ''Failed to fetch: 503 Service Unavailable'')"
proof -
  have "string_of_nat 503 = ''503''"
    by (simp add: string_of_nat.simps)
  then show ?thesis
    by (simp add: fetchPriceFileUrls_def)
qed

text \<open>
  C3, as the code has it. When the request for the listing page fails, answers with an error
  status or has a body that cannot be read, \<open>fetchFileList\<close> returns the empty list, while
  \<open>fetchPriceFileUrls\<close> raises to its caller; \<open>crawlShufersal\<close> catches the error and returns
  a result without success and without items, that carries the message.
\<close>

theorem locator_failure:
  assumes "listingFails fetched"
  shows "fetchFileList fetched = []
       \<and> isl (fetchPriceFileUrls fetched)
       \<and> (listing env = fetched \<longrightarrow>
            crawlShufersal env
            = \<lparr>success = False, crawledStore = ''Shufersal'', items = [],
                error = Some (message (projl (fetchPriceFileUrls fetched))),
                fetchedAt = startedAt env\<rparr>)"
proof (intro conjI impI)
  show "fetchFileList fetched = []"
    using assms by (rule fetchFileList_fails)
  show l: "isl (fetchPriceFileUrls fetched)"
    using assms by (rule fetchPriceFileUrls_fails)
  assume env: "listing env = fetched"
  from l obtain e where e: "fetchPriceFileUrls fetched = Inl e"
    by (cases "fetchPriceFileUrls fetched") simp_all
  then have "fetchPriceFileUrls (listing env) = Inl e"
    by (simp only: env)
  from crawlShufersal_listing_error [OF this]
  show "crawlShufersal env
        = \<lparr>success = False, crawledStore = ''Shufersal'', items = [],
            error = Some (message (projl (fetchPriceFileUrls fetched))),
            fetchedAt = startedAt env\<rparr>"
    by (simp only: e sum.sel)
qed

theorem locator_failure_witness:
  "listingFails (Inr \<lparr>ok = False, status = 503, statusText = ''Service Unavailable'',
                       text_body = Inr ''''\<rparr>)
   \<and> fetchFileList (Inr \<lparr>ok = False, status = 503, statusText = ''Service Unavailable'',
                          text_body = Inr ''''\<rparr>) = []
   \<and> isl (fetchPriceFileUrls (Inr \<lparr>ok = False, status = 503,
                                    statusText = ''Service Unavailable'', text_body = Inr ''''\<rparr>))"
proof -
  let ?f = "Inr \<lparr>ok = False, status = 503, statusText = ''Service Unavailable'',
                  text_body = Inr ''''\<rparr>"
  have h: "listingFails ?f"
    by (simp add: listingFails_def)
  note r = locator_failure [OF h, where env = "\<lparr>listing = ?f, fileItems = (\<lambda>u. Inl NonError),
                                                startedAt = 0\<rparr>"]
  from h r [THEN conjunct1] r [THEN conjunct2, THEN conjunct1] show ?thesis
    by (intro conjI)
qed

section \<open>Full and incremental price files\<close>

lemma new_Set_distinct: "distinct acc \<Longrightarrow> distinct (new_Set acc xs)"
  by (induction xs arbitrary: acc) simp_all

lemma set_new_Set: "set (new_Set acc xs) = set acc \<union> set xs"
  by (induction xs arbitrary: acc) auto

lemma fetchPriceFileUrls_distinct:
  assumes "fetchPriceFileUrls fetched = Inr urls"
  shows "distinct urls"
proof -
  from assms obtain html where
    "urls = new_Set [] (map decodeEntities (match_all urlRegex html))"
    unfolding fetchPriceFileUrls_def Let_def
    by (auto split: sum.splits if_splits)
  then show ?thesis
    by (simp add: new_Set_distinct)
qed

lemma fetchPriceFileUrls_keeps_every_match:
  assumes "ok response" "text_body response = Inr html"
  shows "\<exists>urls. fetchPriceFileUrls (Inr response) = Inr urls
               \<and> set urls = set (map decodeEntities (match_all urlRegex html))"
  using assms by (simp add: fetchPriceFileUrls_def Let_def set_new_Set)

text \<open>
  C4. The claim is that the locator returns distinct URLs and drops every incremental file
  when the listing has a full one. On a listing page with a link to a full file and a link
  to an incremental file, \<open>fetchPriceFileUrls\<close> returns both URLs, the full one and the
  incremental one; the selection of the crawler test script returns the full one alone on
  the same page.
\<close>

theorem fetchPriceFileUrls_keeps_incremental:
  "fetchPriceFileUrls
     (Inr \<lparr>ok = True, status = 200, statusText = ''OK'',
           text_body = Inr (''<a href='' @ [dquote]
             @ ''https://pricesprodpublic.blob.core.windows.net/pricefull/PriceFull7290027600007-001-202401010300.gz?sv=1&amp;sig=a''
             @ [dquote] @ ''>full</a> <a href='' @ [dquote]
             @ ''https://pricesprodpublic.blob.core.windows.net/price/Price7290027600007-001-202401011000.gz?sv=1&amp;sig=b''
             @ [dquote] @ ''>update</a>'')\<rparr>)
   = Inr [''https://pricesprodpublic.blob.core.windows.net/pricefull/PriceFull7290027600007-001-202401010300.gz?sv=1&sig=a'',
          ''https://pricesprodpublic.blob.core.windows.net/price/Price7290027600007-001-202401011000.gz?sv=1&sig=b'']
   \<and> targetUrls (''<a href='' @ [dquote]
             @ ''https://pricesprodpublic.blob.core.windows.net/pricefull/PriceFull7290027600007-001-202401010300.gz?sv=1&amp;sig=a''
             @ [dquote] @ ''>full</a> <a href='' @ [dquote]
             @ ''https://pricesprodpublic.blob.core.windows.net/price/Price7290027600007-001-202401011000.gz?sv=1&amp;sig=b''
             @ [dquote] @ ''>update</a>'')
     = [''https://pricesprodpublic.blob.core.windows.net/pricefull/PriceFull7290027600007-001-202401010300.gz?sv=1&sig=a'']"
  by code_simp

section \<open>The rating at the boundaries\<close>

text \<open>
  C5. For a product with \<open>lowPrice = 10\<close> and \<open>highPrice = 20\<close>, \<open>getPriceRating\<close> gives
  \<open>Great\<close> at the price 11, \<open>Good\<close> at 11.01, \<open>Average\<close> at 16.5, \<open>High\<close> at 16.51 and at
  18.5, and \<open>Expensive\<close> at 18.51, every operation being the binary64 one. A decimal
  literal of the source is the \<open>fl\<close> of its value.
\<close>

theorem getPriceRating_boundaries:
  "getPriceRating 11 (product\<lparr>lowPrice := 10, highPrice := 20\<rparr>) = Great
   \<and> getPriceRating (fl (1101 / 100)) (product\<lparr>lowPrice := 10, highPrice := 20\<rparr>) = Good
   \<and> getPriceRating (fl (165 / 10)) (product\<lparr>lowPrice := 10, highPrice := 20\<rparr>) = Average
   \<and> getPriceRating (fl (1651 / 100)) (product\<lparr>lowPrice := 10, highPrice := 20\<rparr>) = High
   \<and> getPriceRating (fl (185 / 10)) (product\<lparr>lowPrice := 10, highPrice := 20\<rparr>) = High
   \<and> getPriceRating (fl (1851 / 100)) (product\<lparr>lowPrice := 10, highPrice := 20\<rparr>) = Expensive"
proof -
  have f1: "js_sub 20 10 = 10"
    unfolding js_sub_def by (rule fl_value [where e = "- 49" and m = 5629499534213120]) (simp_all add: pow2_def)
  have v2: "fl (1 / 10) = 3602879701896397 / 36028797018963968"
    by (rule fl_value [where e = "- 56" and m = 7205759403792794]) (simp_all add: pow2_def)
  have v3: "fl (35 / 100) = 3152519739159347 / 9007199254740992"
    by (rule fl_value [where e = "- 54" and m = 6305039478318694]) (simp_all add: pow2_def)
  have v4: "fl (65 / 100) = 5854679515581645 / 9007199254740992"
    by (rule fl_value [where e = "- 53" and m = 5854679515581645]) (simp_all add: pow2_def)
  have v5: "fl (85 / 100) = 7656119366529843 / 9007199254740992"
    by (rule fl_value [where e = "- 53" and m = 7656119366529843]) (simp_all add: pow2_def)
  have f6: "js_sub 11 10 = 1"
    unfolding js_sub_def by (rule fl_value [where e = "- 52" and m = 4503599627370496]) (simp_all add: pow2_def)
  have f7: "js_div 1 10 = 3602879701896397 / 36028797018963968"
    unfolding js_div_def by (rule fl_value [where e = "- 56" and m = 7205759403792794]) (simp_all add: pow2_def)
  have v8: "fl (1101 / 100) = 6198078987168645 / 562949953421312"
    by (rule fl_value [where e = "- 49" and m = 6198078987168645]) (simp_all add: pow2_def)
  have f9: "js_sub (6198078987168645 / 562949953421312) 10 = 568579452955525 / 562949953421312"
    unfolding js_sub_def by (rule fl_value [where e = "- 52" and m = 4548635623644200]) (simp_all add: pow2_def)
  have f10: "js_div (568579452955525 / 562949953421312) 10 = 113715890591105 / 1125899906842624"
    unfolding js_div_def by (rule fl_value [where e = "- 56" and m = 7277816997830720]) (simp_all add: pow2_def)
  have v11: "fl (165 / 10) = 33 / 2"
    by (rule fl_value [where e = "- 48" and m = 4644337115725824]) (simp_all add: pow2_def)
  have f12: "js_sub (33 / 2) 10 = 13 / 2"
    unfolding js_sub_def by (rule fl_value [where e = "- 50" and m = 7318349394477056]) (simp_all add: pow2_def)
  have f13: "js_div (13 / 2) 10 = 5854679515581645 / 9007199254740992"
    unfolding js_div_def by (rule fl_value [where e = "- 53" and m = 5854679515581645]) (simp_all add: pow2_def)
  have v14: "fl (1651 / 100) = 4647151865492931 / 281474976710656"
    by (rule fl_value [where e = "- 48" and m = 4647151865492931]) (simp_all add: pow2_def)
  have f15: "js_sub (4647151865492931 / 281474976710656) 10 = 1832402098386371 / 281474976710656"
    unfolding js_sub_def by (rule fl_value [where e = "- 50" and m = 7329608393545484]) (simp_all add: pow2_def)
  have f16: "js_div (1832402098386371 / 281474976710656) 10 = 5863686714836387 / 9007199254740992"
    unfolding js_div_def by (rule fl_value [where e = "- 53" and m = 5863686714836387]) (simp_all add: pow2_def)
  have v17: "fl (185 / 10) = 37 / 2"
    by (rule fl_value [where e = "- 48" and m = 5207287069147136]) (simp_all add: pow2_def)
  have f18: "js_sub (37 / 2) 10 = 17 / 2"
    unfolding js_sub_def by (rule fl_value [where e = "- 49" and m = 4785074604081152]) (simp_all add: pow2_def)
  have f19: "js_div (17 / 2) 10 = 7656119366529843 / 9007199254740992"
    unfolding js_div_def by (rule fl_value [where e = "- 53" and m = 7656119366529843]) (simp_all add: pow2_def)
  have v20: "fl (1851 / 100) = 5210101818914243 / 281474976710656"
    by (rule fl_value [where e = "- 48" and m = 5210101818914243]) (simp_all add: pow2_def)
  have f21: "js_sub (5210101818914243 / 281474976710656) 10 = 2395352051807683 / 281474976710656"
    unfolding js_sub_def by (rule fl_value [where e = "- 49" and m = 4790704103615366]) (simp_all add: pow2_def)
  have f22: "js_div (2395352051807683 / 281474976710656) 10 = 3832563282892293 / 4503599627370496"
    unfolding js_div_def by (rule fl_value [where e = "- 53" and m = 7665126565784586]) (simp_all add: pow2_def)
  show ?thesis
    unfolding getPriceRating_def Let_def v2 v3 v4 v5 v8 v11 v14 v17 v20
    by (simp add: f1 f6 f7 f9 f10 f12 f13 f15 f16 f18 f19 f21 f22)
qed

section \<open>The order of low, average and high\<close>

text \<open>
  C6. The claim is that every summary has \<open>low \<le> average \<le> high\<close>. It holds for the fallback
  estimates and for the default (\<open>getFallbackPrice_ordered\<close>), and a computed summary has
  \<open>low \<le> high\<close> (\<open>calculatePriceStats_low_le_high\<close>). For three store prices of 12.95,
  however, \<open>calculatePriceStats\<close> returns the average 12.9 with the low and the high price
  13: the sum of the three prices is rounded, its third is just below 12.95 and goes down to
  12.9, while ten times 12.95 is rounded to 129.5 and goes up to 13.
\<close>

theorem calculatePriceStats_average_below_low:
  "averagePrice (calculatePriceStats
      [\<lparr>storeName = ''Shufersal'', storeChain = ''Shufersal'', price = fl (1295 / 100),
        priceUpdateDate = None\<rparr>,
       \<lparr>storeName = ''Shufersal'', storeChain = ''Shufersal'', price = fl (1295 / 100),
        priceUpdateDate = None\<rparr>,
       \<lparr>storeName = ''Shufersal'', storeChain = ''Shufersal'', price = fl (1295 / 100),
        priceUpdateDate = None\<rparr>])
   < lowPrice (calculatePriceStats
      [\<lparr>storeName = ''Shufersal'', storeChain = ''Shufersal'', price = fl (1295 / 100),
        priceUpdateDate = None\<rparr>,
       \<lparr>storeName = ''Shufersal'', storeChain = ''Shufersal'', price = fl (1295 / 100),
        priceUpdateDate = None\<rparr>,
       \<lparr>storeName = ''Shufersal'', storeChain = ''Shufersal'', price = fl (1295 / 100),
        priceUpdateDate = None\<rparr>])"
  unfolding calculatePriceStats_three_prices
  using twelve_ninety_below_thirteen by simp

section \<open>Bar codes before search terms\<close>

lemma exact_matches_set:
  "set (concat (map (\<lambda>b. map f (filter (\<lambda>item. itemCode item = b) xs)) bs))
   = f ` set (filter (\<lambda>item. itemCode item \<in> set bs) xs)"
  by auto

lemma exact_matches_mset:
  "distinct bs \<Longrightarrow>
   mset (concat (map (\<lambda>b. map f (filter (\<lambda>item. itemCode item = b) xs)) bs))
   = mset (map f (filter (\<lambda>item. itemCode item \<in> set bs) xs))"
proof (induction bs)
  case Nil
  then show ?case by simp
next
  case (Cons b bs)
  have split: "mset (filter (\<lambda>item. itemCode item \<in> set (b # bs)) xs)
      = mset (filter (\<lambda>item. itemCode item = b) xs)
        + mset (filter (\<lambda>item. itemCode item \<in> set bs) xs)"
    using Cons.prems by (induction xs) auto
  have "mset (map f (filter (\<lambda>item. itemCode item \<in> set (b # bs)) xs))
      = mset (map f (filter (\<lambda>item. itemCode item = b) xs))
        + mset (map f (filter (\<lambda>item. itemCode item \<in> set bs) xs))"
    unfolding mset_map split by simp
  with Cons show ?case by simp
qed

lemma exact_matches_empty_iff:
  "concat (map (\<lambda>b. map f (filter (\<lambda>item. itemCode item = b) xs)) bs) = []
   \<longleftrightarrow> filter (\<lambda>item. itemCode item \<in> set bs) xs = []"
proof -
  have "concat (map (\<lambda>b. map f (filter (\<lambda>item. itemCode item = b) xs)) bs) = []
     \<longleftrightarrow> set (concat (map (\<lambda>b. map f (filter (\<lambda>item. itemCode item = b) xs)) bs)) = {}"
    by (simp only: set_empty)
  also have "\<dots> \<longleftrightarrow> set (filter (\<lambda>item. itemCode item \<in> set bs) xs) = {}"
    unfolding exact_matches_set by simp
  also have "\<dots> \<longleftrightarrow> filter (\<lambda>item. itemCode item \<in> set bs) xs = []"
    by (simp only: set_empty)
  finally show ?thesis .
qed

lemma findPricesForProduct_exact:
  assumes "filter (\<lambda>item. itemCode item \<in> set (barcodes product)) allItems \<noteq> []"
  shows "findPricesForProduct product allItems
         = concat (map (\<lambda>b. map toStorePrice (filter (\<lambda>item. itemCode item = b) allItems))
                       (barcodes product))"
proof -
  have "concat (map (\<lambda>b. map toStorePrice (filter (\<lambda>item. itemCode item = b) allItems))
                    (barcodes product)) \<noteq> []"
    using assms by (simp only: exact_matches_empty_iff not_False_eq_True)
  then show ?thesis
    unfolding findPricesForProduct_def Let_def by (simp only: if_False)
qed

lemma findPricesForProduct_fuzzy:
  assumes "filter (\<lambda>item. itemCode item \<in> set (barcodes product)) allItems = []"
  shows "findPricesForProduct product allItems
         = map toStorePrice
             (take 5 (searchItems (map (\<lambda>i. i\<lparr>unitOfMeasure := '''', quantity := 1\<rparr>) allItems)
                                  (searchTerms product)))"
proof -
  have "concat (map (\<lambda>b. map toStorePrice (filter (\<lambda>item. itemCode item = b) allItems))
                    (barcodes product)) = []"
    using assms by (simp only: exact_matches_empty_iff)
  then show ?thesis
    unfolding findPricesForProduct_def Let_def by (simp only: if_True append_Nil simp_thms)
qed

lemma exact_matches_rename:
  "map toStorePrice (filter (\<lambda>item. itemCode item = b) (map (\<lambda>i. i\<lparr>itemName := rename i\<rparr>) xs))
   = map toStorePrice (filter (\<lambda>item. itemCode item = b) xs)"
  by (induction xs) (simp_all add: toStorePrice_def)

text \<open>
  C7. When some record has an item code among the bar codes of the product, the result of
  \<open>findPricesForProduct\<close> is made of exactly the records with such a code (as a set, and
  record for record when the bar codes of the product are distinct), and it depends neither
  on the search terms of the product nor on the names of the records: the search by terms is
  not consulted. When no record has such a code, the result is made of the first five
  records that the search by terms finds.
\<close>

theorem findPricesForProduct_precedence:
  "(filter (\<lambda>item. itemCode item \<in> set (barcodes product)) allItems \<noteq> [] \<longrightarrow>
      set (findPricesForProduct product allItems)
        = toStorePrice ` set (filter (\<lambda>item. itemCode item \<in> set (barcodes product)) allItems)
      \<and> (distinct (barcodes product) \<longrightarrow>
           mset (findPricesForProduct product allItems)
           = mset (map toStorePrice
                     (filter (\<lambda>item. itemCode item \<in> set (barcodes product)) allItems)))
      \<and> findPricesForProduct (product\<lparr>searchTerms := terms\<rparr>) allItems
          = findPricesForProduct product allItems
      \<and> findPricesForProduct product (map (\<lambda>i. i\<lparr>itemName := rename i\<rparr>) allItems)
          = findPricesForProduct product allItems)
   \<and> (filter (\<lambda>item. itemCode item \<in> set (barcodes product)) allItems = [] \<longrightarrow>
        findPricesForProduct product allItems
        = map toStorePrice
            (take 5 (searchItems (map (\<lambda>i. i\<lparr>unitOfMeasure := '''', quantity := 1\<rparr>) allItems)
                                 (searchTerms product))))"
proof (intro conjI impI)
  assume ex: "filter (\<lambda>item. itemCode item \<in> set (barcodes product)) allItems \<noteq> []"
  note eq = findPricesForProduct_exact [OF ex]
  show "set (findPricesForProduct product allItems)
        = toStorePrice ` set (filter (\<lambda>item. itemCode item \<in> set (barcodes product)) allItems)"
    unfolding eq by (rule exact_matches_set)
  show "mset (findPricesForProduct product allItems)
        = mset (map toStorePrice
                  (filter (\<lambda>item. itemCode item \<in> set (barcodes product)) allItems))"
    if "distinct (barcodes product)"
    unfolding eq using that by (rule exact_matches_mset)
  have "filter (\<lambda>item. itemCode item \<in> set (barcodes (product\<lparr>searchTerms := terms\<rparr>))) allItems
        \<noteq> []"
    using ex by simp
  from findPricesForProduct_exact [OF this]
  show "findPricesForProduct (product\<lparr>searchTerms := terms\<rparr>) allItems
        = findPricesForProduct product allItems"
    unfolding eq by simp
  have "filter (\<lambda>item. itemCode item \<in> set (barcodes product))
          (map (\<lambda>i. i\<lparr>itemName := rename i\<rparr>) allItems) \<noteq> []"
    using ex by (simp add: filter_map o_def)
  from findPricesForProduct_exact [OF this]
  show "findPricesForProduct product (map (\<lambda>i. i\<lparr>itemName := rename i\<rparr>) allItems)
        = findPricesForProduct product allItems"
    unfolding eq by (simp only: exact_matches_rename)
next
  assume "filter (\<lambda>item. itemCode item \<in> set (barcodes product)) allItems = []"
  then show "findPricesForProduct product allItems
        = map toStorePrice
            (take 5 (searchItems (map (\<lambda>i. i\<lparr>unitOfMeasure := '''', quantity := 1\<rparr>) allItems)
                                 (searchTerms product)))"
    by (rule findPricesForProduct_fuzzy)
qed

theorem findPricesForProduct_precedence_witness:
  "filter (\<lambda>item. itemCode item \<in> set [''7290000066318'', ''7290000066325'', ''7290102990017''])
     [plainItem ''7290000066318'' ''Tnuva 3%'' (fl (59 / 10)),
      plainItem ''4901234567894'' ''Soy milk'' (fl (99 / 10))] \<noteq> []
   \<and> set (findPricesForProduct
            \<lparr>cId = ''13'', cName = ''Milk 3%'', cNameHebrew = utf8 [0x5D7, 0x5DC, 0x5D1] @ '' 3%'',
             cCategory = utf8 [0x5D7, 0x5DC, 0x5D1], cUnit = ''1'', cImage = utf8 [0x1F95B],
             barcodes = [''7290000066318'', ''7290000066325'', ''7290102990017''],
             searchTerms = [utf8 [0x5D7, 0x5DC, 0x5D1], ''milk'', ''3%'']\<rparr>
            [plainItem ''7290000066318'' ''Tnuva 3%'' (fl (59 / 10)),
             plainItem ''4901234567894'' ''Soy milk'' (fl (99 / 10))])
       = {toStorePrice (plainItem ''7290000066318'' ''Tnuva 3%'' (fl (59 / 10)))}
   \<and> distinct [''7290000066318'', ''7290000066325'', ''7290102990017'']
   \<and> findPricesForProduct
         \<lparr>cId = ''13'', cName = ''Milk 3%'', cNameHebrew = utf8 [0x5D7, 0x5DC, 0x5D1] @ '' 3%'',
          cCategory = utf8 [0x5D7, 0x5DC, 0x5D1], cUnit = ''1'', cImage = utf8 [0x1F95B],
          barcodes = [''7290000066318'', ''7290000066325'', ''7290102990017''],
          searchTerms = [utf8 [0x5D7, 0x5DC, 0x5D1], ''milk'', ''3%'']\<rparr>
         [plainItem ''7290000066318'' ''Tnuva 3%'' (fl (59 / 10)),
          plainItem ''4901234567894'' ''Soy milk'' (fl (99 / 10))]
       = [toStorePrice (plainItem ''7290000066318'' ''Tnuva 3%'' (fl (59 / 10)))]"
proof -
  let ?p = "\<lparr>cId = ''13'', cName = ''Milk 3%'', cNameHebrew = utf8 [0x5D7, 0x5DC, 0x5D1] @ '' 3%'',
             cCategory = utf8 [0x5D7, 0x5DC, 0x5D1], cUnit = ''1'', cImage = utf8 [0x1F95B],
             barcodes = [''7290000066318'', ''7290000066325'', ''7290102990017''],
             searchTerms = [utf8 [0x5D7, 0x5DC, 0x5D1], ''milk'', ''3%'']\<rparr>"
  let ?its = "[plainItem ''7290000066318'' ''Tnuva 3%'' (fl (59 / 10)),
               plainItem ''4901234567894'' ''Soy milk'' (fl (99 / 10))]"
  have f: "filter (\<lambda>item. itemCode item \<in> set (barcodes ?p)) ?its
           = [plainItem ''7290000066318'' ''Tnuva 3%'' (fl (59 / 10))]"
    by (simp add: plainItem_def)
  then have h: "filter (\<lambda>item. itemCode item \<in> set (barcodes ?p)) ?its \<noteq> []"
    by simp
  from findPricesForProduct_precedence [where product = ?p and allItems = ?its
      and terms = "[]" and rename = itemName, THEN conjunct1]
  have "filter (\<lambda>item. itemCode item \<in> set (barcodes ?p)) ?its \<noteq> [] \<longrightarrow>
        set (findPricesForProduct ?p ?its)
        = toStorePrice ` set (filter (\<lambda>item. itemCode item \<in> set (barcodes ?p)) ?its)
        \<and> (distinct (barcodes ?p) \<longrightarrow>
             mset (findPricesForProduct ?p ?its)
             = mset (map toStorePrice
                       (filter (\<lambda>item. itemCode item \<in> set (barcodes ?p)) ?its)))
        \<and> findPricesForProduct (?p\<lparr>searchTerms := []\<rparr>) ?its = findPricesForProduct ?p ?its
        \<and> findPricesForProduct ?p (map (\<lambda>i. i\<lparr>itemName := itemName i\<rparr>) ?its)
            = findPricesForProduct ?p ?its" .
  from this h
  have all: "set (findPricesForProduct ?p ?its)
        = toStorePrice ` set (filter (\<lambda>item. itemCode item \<in> set (barcodes ?p)) ?its)
        \<and> (distinct (barcodes ?p) \<longrightarrow>
             mset (findPricesForProduct ?p ?its)
             = mset (map toStorePrice
                       (filter (\<lambda>item. itemCode item \<in> set (barcodes ?p)) ?its)))
        \<and> findPricesForProduct (?p\<lparr>searchTerms := []\<rparr>) ?its = findPricesForProduct ?p ?its
        \<and> findPricesForProduct ?p (map (\<lambda>i. i\<lparr>itemName := itemName i\<rparr>) ?its)
            = findPricesForProduct ?p ?its"
    by (rule mp)
  note both = conjI [OF all [THEN conjunct1] all [THEN conjunct2, THEN conjunct1]]
  from both have "set (findPricesForProduct ?p ?its)
        = toStorePrice ` set (filter (\<lambda>item. itemCode item \<in> set (barcodes ?p)) ?its)"
    by (rule conjunct1)
  then have one: "set (findPricesForProduct ?p ?its)
        = {toStorePrice (plainItem ''7290000066318'' ''Tnuva 3%'' (fl (59 / 10)))}"
    unfolding f by simp
  have d: "distinct (barcodes ?p)"
    by simp
  from both [THEN conjunct2] d
  have "mset (findPricesForProduct ?p ?its)
        = mset (map toStorePrice (filter (\<lambda>item. itemCode item \<in> set (barcodes ?p)) ?its))"
    by (rule mp)
  then have "mset (findPricesForProduct ?p ?its)
        = {#toStorePrice (plainItem ''7290000066318'' ''Tnuva 3%'' (fl (59 / 10)))#}"
    unfolding f by simp
  then have lst: "findPricesForProduct ?p ?its
        = [toStorePrice (plainItem ''7290000066318'' ''Tnuva 3%'' (fl (59 / 10)))]"
    by (simp only: mset_single_iff)
  from h one d lst show ?thesis
    by simp
qed

section \<open>The price summary\<close>

text \<open>
  C8. The claim is that the average, the low and the high price are the mean, the minimum and
  the maximum of the strictly positive prices, each rounded to one decimal place, half away
  from zero. The function has that shape when every operation is the binary64 one
  (\<open>calculatePriceStats_eq_summarize\<close>), and the two examples of the claim hold
  (\<open>calculatePriceStats_examples\<close>). For three store prices of 12.95, however, the mean is the
  price itself, equal to the minimum and to the maximum, and 12.95 rounded half away from
  zero to one decimal place is 13: the function returns 13 for the low and the high price,
  and 12.9 for the average.
\<close>

theorem calculatePriceStats_average_not_rounded_mean:
  "calculatePriceStats
      [\<lparr>storeName = ''Shufersal'', storeChain = ''Shufersal'', price = fl (1295 / 100),
        priceUpdateDate = None\<rparr>,
       \<lparr>storeName = ''Shufersal'', storeChain = ''Shufersal'', price = fl (1295 / 100),
        priceUpdateDate = None\<rparr>,
       \<lparr>storeName = ''Shufersal'', storeChain = ''Shufersal'', price = fl (1295 / 100),
        priceUpdateDate = None\<rparr>]
   = \<lparr>averagePrice = fl (129 / 10), lowPrice = 13, highPrice = 13\<rparr>
   \<and> fl (129 / 10) \<noteq> 13
   \<and> 0 < fl (1295 / 100)
   \<and> (fl (1295 / 100) + fl (1295 / 100) + fl (1295 / 100)) / 3 = fl (1295 / 100)
   \<and> Min {fl (1295 / 100)} = fl (1295 / 100)
   \<and> rat_of_int (round_half_away_from_zero (1295 / 100 * 10)) / 10 = 13"
proof -
  have "rat_of_int (round_half_away_from_zero (1295 / 100 * 10)) / 10 = 13"
  proof -
    have "\<lfloor>(1295 / 100 * 10 + 1 / 2 :: rat)\<rfloor> = 130"
      by (rule floor_unique) simp_all
    then show ?thesis
      by (simp add: round_half_away_from_zero_def)
  qed
  moreover have "fl (129 / 10) \<noteq> 13"
    using twelve_ninety_below_thirteen by simp
  ultimately show ?thesis
    using calculatePriceStats_three_prices twelve_ninety_five_positive by simp
qed

section \<open>Concurrent calls\<close>

lemma server_step_stale_call:
  assumes "staleCall (cache s) ev"
  shows "crawlsStarted (server_step s ev) = crawlsStarted s + 1
       \<and> cache (server_step s ev) = cache s"
proof (cases ev)
  case (Call i t)
  with assms have "\<not> cacheFresh (cache s) t"
    by (simp add: staleCall_def)
  then show ?thesis
    unfolding Call by (simp add: server_step_def fetchAllPrices_start_def)
next
  case (Settle i r t)
  with assms show ?thesis
    by (simp add: staleCall_def)
qed

lemma server_run_stale_calls:
  "list_all (staleCall (cache s)) evs \<Longrightarrow>
   crawlsStarted (server_run s evs) = crawlsStarted s + length evs
   \<and> cache (server_run s evs) = cache s"
proof (induction evs arbitrary: s)
  case Nil
  then show ?case by (simp add: server_run_def)
next
  case (Cons ev evs)
  from Cons.prems have ev: "staleCall (cache s) ev" and rest: "list_all (staleCall (cache s)) evs"
    by simp_all
  note step = server_step_stale_call [OF ev]
  from rest step have "list_all (staleCall (cache (server_step s ev))) evs"
    by simp
  from Cons.IH [OF this] step show ?case
    by (simp add: server_run_def)
qed

text \<open>
  C9. The claim is that two calls of \<open>fetchAllPrices\<close> made while a crawl is in flight run one
  crawl. On the empty cache the second call starts a crawl of its own before the first has
  settled: two crawls have been started.
\<close>

theorem two_calls_start_two_crawls:
  "crawlsStarted (server_run server_init [Call 1 0, Call 2 0]) = 2
   \<and> waiting (server_run server_init [Call 1 0, Call 2 0]) = [1, 2]"
  by (simp add: server_run_def server_init_def server_step_def fetchAllPrices_start_def
      cacheFresh_def)

text \<open>
  C9, as the code has it. There is no guard against a crawl in flight: every call that finds
  the cache stale starts a crawl, so that a sequence of such calls starts as many crawls as
  it has calls, and leaves the cache as it was. A call that finds the cache fresh starts no
  crawl and is answered from the cache.
\<close>

theorem every_stale_call_crawls:
  "(list_all (staleCall (cache s)) evs \<longrightarrow>
      crawlsStarted (server_run s evs) = crawlsStarted s + length evs
      \<and> cache (server_run s evs) = cache s)
   \<and> (cacheFresh (cache s) t \<longrightarrow>
        crawlsStarted (server_step s (Call i t)) = crawlsStarted s
        \<and> answers (server_step s (Call i t))
           = answers s @ [(i, buildProductsFromCache (cache s))])"
proof (intro conjI impI)
  assume "list_all (staleCall (cache s)) evs"
  from server_run_stale_calls [OF this]
  show "crawlsStarted (server_run s evs) = crawlsStarted s + length evs"
    and "cache (server_run s evs) = cache s"
    by simp_all
next
  assume "cacheFresh (cache s) t"
  then show "crawlsStarted (server_step s (Call i t)) = crawlsStarted s"
    and "answers (server_step s (Call i t)) = answers s @ [(i, buildProductsFromCache (cache s))]"
    by (simp_all add: server_step_def fetchAllPrices_start_def)
qed

theorem every_stale_call_crawls_witness:
  "list_all (staleCall (cache server_init)) [Call 1 0, Call 2 3, Call 3 3]
   \<and> crawlsStarted (server_run server_init [Call 1 0, Call 2 3, Call 3 3]) = 3
   \<and> cacheFresh \<lparr>priceCache = [(''1'', [])], lastCrawlTime = Some 0\<rparr> 5
   \<and> crawlsStarted
        (server_step
           \<lparr>cache = \<lparr>priceCache = [(''1'', [])], lastCrawlTime = Some 0\<rparr>, waiting = [],
             crawlsStarted = 1, answers = []\<rparr>
           (Call 4 5)) = 1"
proof -
  let ?evs = "[Call 1 0, Call 2 3, Call 3 3]"
  let ?s = "\<lparr>cache = \<lparr>priceCache = [(''1'', [])], lastCrawlTime = Some 0\<rparr>, waiting = [],
             crawlsStarted = 1, answers = []\<rparr>"
  have h: "list_all (staleCall (cache server_init)) ?evs"
    by (simp add: staleCall_def server_init_def cacheFresh_def)
  from every_stale_call_crawls [where s = server_init and evs = ?evs and t = 0 and i = 0,
    THEN conjunct1]
  have "list_all (staleCall (cache server_init)) ?evs \<longrightarrow>
      crawlsStarted (server_run server_init ?evs) = crawlsStarted server_init + length ?evs
      \<and> cache (server_run server_init ?evs) = cache server_init" .
  from this h
  have "crawlsStarted (server_run server_init ?evs) = crawlsStarted server_init + length ?evs
      \<and> cache (server_run server_init ?evs) = cache server_init"
    by (rule mp)
  then have three: "crawlsStarted (server_run server_init ?evs) = 3"
    by (simp add: server_init_def)
  have fresh: "cacheFresh \<lparr>priceCache = [(''1'', [])], lastCrawlTime = Some 0\<rparr> 5"
    by (simp add: cacheFresh_def CACHE_DURATION_MS_def)
  then have fresh': "cacheFresh (cache ?s) 5"
    by simp
  from every_stale_call_crawls [where s = ?s and evs = "[]" and t = 5 and i = 4,
    THEN conjunct2]
  have "cacheFresh (cache ?s) 5 \<longrightarrow>
      crawlsStarted (server_step ?s (Call 4 5)) = crawlsStarted ?s
      \<and> answers (server_step ?s (Call 4 5))
          = answers ?s @ [(4, buildProductsFromCache (cache ?s))]" .
  from this fresh' have "crawlsStarted (server_step ?s (Call 4 5)) = crawlsStarted ?s"
    by (rule mp [THEN conjunct1])
  then have one: "crawlsStarted (server_step ?s (Call 4 5)) = 1"
    by simp
  from h three fresh one show ?thesis
    by (intro conjI)
qed

section \<open>A failed crawl and the cache\<close>

lemma update_nonempty:
  "AList.update k v al \<noteq> []"
  by (cases al) simp_all

lemma foldl_update_nonempty:
  "xs \<noteq> [] \<Longrightarrow> foldl (\<lambda>c p. AList.update (k p) (v p) c) c0 xs \<noteq> []"
  by (induction xs rule: rev_induct) (simp_all add: update_nonempty)

lemma productCatalog_nonempty:
  "productCatalog \<noteq> []"
  by (simp add: productCatalog_def)

lemma priceCache_after_crawl:
  "success r \<Longrightarrow> priceCache (snd (fetchAllPrices_resume st r t)) \<noteq> []"
  by (simp add: fetchAllPrices_resume_def Let_def foldl_update_nonempty productCatalog_nonempty)

text \<open>
  C10. When the crawl reports failure, \<open>fetchAllPrices\<close> returns the fallback products and
  leaves \<open>priceCache\<close> and \<open>lastCrawlTime\<close> as they were, both for the part of the function
  after the \<^verbatim>\<open>await\<close> (any crawl result, any state) and for a whole call that found the
  cache stale. The state changes only when the crawl succeeded, and then the new state is
  built from the crawl result alone, with the time of the crawl.
\<close>

theorem fetchAllPrices_failure_keeps_cache:
  "(\<not> success r \<longrightarrow> fetchAllPrices_resume st r t = (getFallbackProducts, st))
   \<and> (\<not> cacheFresh st now \<and> \<not> success (crawlShufersal env) \<longrightarrow>
        fetchAllPrices st env now later = (getFallbackProducts, st))
   \<and> (snd (fetchAllPrices_resume st r t) \<noteq> st \<longrightarrow> success r)
   \<and> (success r \<longrightarrow>
        snd (fetchAllPrices_resume st r t) = snd (fetchAllPrices_resume st' r t)
        \<and> lastCrawlTime (snd (fetchAllPrices_resume st r t)) = Some t)"
proof (intro conjI impI)
  show "fetchAllPrices_resume st r t = (getFallbackProducts, st)" if "\<not> success r"
    using that by (simp add: fetchAllPrices_resume_def)
  show "fetchAllPrices st env now later = (getFallbackProducts, st)"
    if "\<not> cacheFresh st now \<and> \<not> success (crawlShufersal env)"
    using that by (simp add: fetchAllPrices_def fetchAllPrices_start_def fetchAllPrices_resume_def)
  show "success r" if "snd (fetchAllPrices_resume st r t) \<noteq> st"
  proof (rule ccontr)
    assume "\<not> success r"
    then have "snd (fetchAllPrices_resume st r t) = st"
      by (simp add: fetchAllPrices_resume_def)
    with that show False by (rule notE)
  qed
  show "snd (fetchAllPrices_resume st r t) = snd (fetchAllPrices_resume st' r t)" if "success r"
    using that by (simp add: fetchAllPrices_resume_def Let_def)
  show "lastCrawlTime (snd (fetchAllPrices_resume st r t)) = Some t" if "success r"
    using that by (simp add: fetchAllPrices_resume_def Let_def)
qed


text \<open>
  The statement at a populated cache that is one hour old. The state is the one left by a
  successful crawl at time 0 on the empty initial state; one hour later the listing cannot
  be fetched. The call returns the fallback products, and the state after it is the
  populated one, with its crawl time. A later successful crawl replaces this state by the
  one it would have built from the empty initial state.
\<close>

theorem fetchAllPrices_failure_keeps_cache_witness:
  "priceCache (snd (fetchAllPrices_resume \<lparr>priceCache = [], lastCrawlTime = None\<rparr>
        \<lparr>success = True, crawledStore = ''Shufersal'',
          items = [plainItem ''7290000066318'' ''Milk'' 6], error = None, fetchedAt = 0\<rparr> 0))
      \<noteq> []
   \<and> lastCrawlTime (snd (fetchAllPrices_resume \<lparr>priceCache = [], lastCrawlTime = None\<rparr>
        \<lparr>success = True, crawledStore = ''Shufersal'',
          items = [plainItem ''7290000066318'' ''Milk'' 6], error = None, fetchedAt = 0\<rparr> 0))
      = Some 0
   \<and> \<not> cacheFresh (snd (fetchAllPrices_resume \<lparr>priceCache = [], lastCrawlTime = None\<rparr>
        \<lparr>success = True, crawledStore = ''Shufersal'',
          items = [plainItem ''7290000066318'' ''Milk'' 6], error = None, fetchedAt = 0\<rparr> 0))
        3600000
   \<and> \<not> success (crawlShufersal \<lparr>listing = Inl (Error ''fetch failed''),
        fileItems = (\<lambda>u. Inl NonError), startedAt = 3600000\<rparr>)
   \<and> fetchAllPrices (snd (fetchAllPrices_resume \<lparr>priceCache = [], lastCrawlTime = None\<rparr>
        \<lparr>success = True, crawledStore = ''Shufersal'',
          items = [plainItem ''7290000066318'' ''Milk'' 6], error = None, fetchedAt = 0\<rparr> 0))
        \<lparr>listing = Inl (Error ''fetch failed''), fileItems = (\<lambda>u. Inl NonError),
          startedAt = 3600000\<rparr>
        3600000 3600005
      = (getFallbackProducts,
         snd (fetchAllPrices_resume \<lparr>priceCache = [], lastCrawlTime = None\<rparr>
           \<lparr>success = True, crawledStore = ''Shufersal'',
             items = [plainItem ''7290000066318'' ''Milk'' 6], error = None, fetchedAt = 0\<rparr> 0))
   \<and> priceCache (snd (fetchAllPrices
        (snd (fetchAllPrices_resume \<lparr>priceCache = [], lastCrawlTime = None\<rparr>
           \<lparr>success = True, crawledStore = ''Shufersal'',
             items = [plainItem ''7290000066318'' ''Milk'' 6], error = None, fetchedAt = 0\<rparr> 0))
        \<lparr>listing = Inl (Error ''fetch failed''), fileItems = (\<lambda>u. Inl NonError),
          startedAt = 3600000\<rparr>
        3600000 3600005))
      \<noteq> []
   \<and> fetchAllPrices_resume
        (snd (fetchAllPrices_resume \<lparr>priceCache = [], lastCrawlTime = None\<rparr>
           \<lparr>success = True, crawledStore = ''Shufersal'',
             items = [plainItem ''7290000066318'' ''Milk'' 6], error = None, fetchedAt = 0\<rparr> 0))
        \<lparr>success = False, crawledStore = ''Shufersal'', items = [],
          error = Some ''fetch failed'', fetchedAt = 3600000\<rparr> 3600005
      = (getFallbackProducts,
         snd (fetchAllPrices_resume \<lparr>priceCache = [], lastCrawlTime = None\<rparr>
           \<lparr>success = True, crawledStore = ''Shufersal'',
             items = [plainItem ''7290000066318'' ''Milk'' 6], error = None, fetchedAt = 0\<rparr> 0))
   \<and> snd (fetchAllPrices_resume \<lparr>priceCache = [], lastCrawlTime = None\<rparr>
        \<lparr>success = True, crawledStore = ''Shufersal'',
          items = [plainItem ''7290000066318'' ''Milk'' 6], error = None, fetchedAt = 0\<rparr> 0)
      \<noteq> \<lparr>priceCache = [], lastCrawlTime = None\<rparr>
   \<and> snd (fetchAllPrices_resume
        (snd (fetchAllPrices_resume \<lparr>priceCache = [], lastCrawlTime = None\<rparr>
           \<lparr>success = True, crawledStore = ''Shufersal'',
             items = [plainItem ''7290000066318'' ''Milk'' 6], error = None, fetchedAt = 0\<rparr> 0))
        \<lparr>success = True, crawledStore = ''Shufersal'',
          items = [plainItem ''7290000066318'' ''Milk'' 7], error = None, fetchedAt = 7200000\<rparr>
        7200000)
      = snd (fetchAllPrices_resume \<lparr>priceCache = [], lastCrawlTime = None\<rparr>
        \<lparr>success = True, crawledStore = ''Shufersal'',
          items = [plainItem ''7290000066318'' ''Milk'' 7], error = None, fetchedAt = 7200000\<rparr>
        7200000)
   \<and> lastCrawlTime (snd (fetchAllPrices_resume
        (snd (fetchAllPrices_resume \<lparr>priceCache = [], lastCrawlTime = None\<rparr>
           \<lparr>success = True, crawledStore = ''Shufersal'',
             items = [plainItem ''7290000066318'' ''Milk'' 6], error = None, fetchedAt = 0\<rparr> 0))
        \<lparr>success = True, crawledStore = ''Shufersal'',
          items = [plainItem ''7290000066318'' ''Milk'' 7], error = None, fetchedAt = 7200000\<rparr>
        7200000))
      = Some 7200000"
proof -
  let ?init = "\<lparr>priceCache = [], lastCrawlTime = None\<rparr>"
  let ?r0 = "\<lparr>success = True, crawledStore = ''Shufersal'',
              items = [plainItem ''7290000066318'' ''Milk'' 6], error = None, fetchedAt = 0\<rparr>"
  let ?st = "snd (fetchAllPrices_resume ?init ?r0 0)"
  let ?env = "\<lparr>listing = Inl (Error ''fetch failed''), fileItems = (\<lambda>u. Inl NonError),
               startedAt = 3600000\<rparr>"
  let ?rf = "\<lparr>success = False, crawledStore = ''Shufersal'', items = [],
              error = Some ''fetch failed'', fetchedAt = 3600000\<rparr>"
  let ?r2 = "\<lparr>success = True, crawledStore = ''Shufersal'',
              items = [plainItem ''7290000066318'' ''Milk'' 7], error = None,
              fetchedAt = 7200000\<rparr>"
  note at_fail = fetchAllPrices_failure_keeps_cache
    [where st = ?st and now = 3600000 and later = 3600005 and env = ?env and r = ?rf
       and t = 3600005 and st' = ?init]
  note at_first = fetchAllPrices_failure_keeps_cache
    [where st = ?init and now = 0 and later = 0 and env = ?env and r = ?r0
       and t = 0 and st' = ?init]
  note at_next = fetchAllPrices_failure_keeps_cache
    [where st = ?st and now = 3600000 and later = 3600005 and env = ?env and r = ?r2
       and t = 7200000 and st' = ?init]
  have s0: "success ?r0"
    by simp
  have populated: "priceCache ?st \<noteq> []"
    using s0 by (rule priceCache_after_crawl)
  from at_first [THEN conjunct2, THEN conjunct2, THEN conjunct2] s0
  have time: "lastCrawlTime ?st = Some 0"
    by (rule mp [THEN conjunct2])
  have stale: "\<not> cacheFresh ?st 3600000"
    by (simp add: cacheFresh_def time CACHE_DURATION_MS_def)
  have failed: "\<not> success (crawlShufersal ?env)"
    by (simp add: crawlShufersal_def fetchPriceFileUrls_def)
  from stale failed have "\<not> cacheFresh ?st 3600000 \<and> \<not> success (crawlShufersal ?env)"
    by (rule conjI)
  with at_fail [THEN conjunct2, THEN conjunct1]
  have kept: "fetchAllPrices ?st ?env 3600000 3600005 = (getFallbackProducts, ?st)"
    by (rule mp)
  have still: "priceCache (snd (fetchAllPrices ?st ?env 3600000 3600005)) \<noteq> []"
    by (simp only: kept snd_conv populated not_False_eq_True)
  have "\<not> success ?rf"
    by simp
  with at_fail [THEN conjunct1]
  have kept_resume: "fetchAllPrices_resume ?st ?rf 3600005 = (getFallbackProducts, ?st)"
    by (rule mp)
  have differs: "?st \<noteq> ?init"
  proof
    assume "?st = ?init"
    then have "lastCrawlTime ?st = lastCrawlTime ?init"
      by (rule arg_cong)
    with time show False
      by simp
  qed
  have s2: "success ?r2"
    by simp
  from at_next [THEN conjunct2, THEN conjunct2, THEN conjunct2] s2
  have replaced: "snd (fetchAllPrices_resume ?st ?r2 7200000)
        = snd (fetchAllPrices_resume ?init ?r2 7200000)
      \<and> lastCrawlTime (snd (fetchAllPrices_resume ?st ?r2 7200000)) = Some 7200000"
    by (rule mp)
  from populated time stale failed kept still kept_resume differs
    replaced [THEN conjunct1] replaced [THEN conjunct2]
  show ?thesis
    by (intro conjI)
qed

end
